theory Spec2Isabelle
  imports Complex_Main "HOL-Library.Word"
begin

unbundle bit_operations_syntax

section \<open>SQLite values and result codes\<close>

text \<open>
  The engine is an extension of SQLite. The constants below are those of the SQLite C API that
  the source uses by name: the result codes and the five fundamental datatypes
  (\<open>SQLITE_INTEGER 1\<close>, \<open>SQLITE_FLOAT 2\<close>, \<open>SQLITE_TEXT 3\<close>, \<open>SQLITE_BLOB 4\<close>,
  \<open>SQLITE_NULL 5\<close>). A \<open>sqlite3_int64\<close> is modelled as an \<open>int\<close>; a \<open>double\<close> as a
  \<open>real\<close> (SQLite stores no NaN: it turns NaN into NULL); a TEXT as the bytes before its
  terminating NUL; a BLOB as a byte list.
\<close>

type_synonym blob = "8 word list"

datatype sqlite_value =
    VInteger int
  | VFloat real
  | VText string
  | VBlob blob
  | VNull

definition SQLITE_OK :: int where "SQLITE_OK = 0"
definition SQLITE_ERROR :: int where "SQLITE_ERROR = 1"
definition SQLITE_MISMATCH :: int where "SQLITE_MISMATCH = 20"
definition SQLITE_MISUSE :: int where "SQLITE_MISUSE = 21"
definition SQLITE_ROW :: int where "SQLITE_ROW = 100"
definition SQLITE_DONE :: int where "SQLITE_DONE = 101"

definition SQLITE_INTEGER :: int where "SQLITE_INTEGER = 1"
definition SQLITE_FLOAT :: int where "SQLITE_FLOAT = 2"
definition SQLITE_TEXT :: int where "SQLITE_TEXT = 3"
definition SQLITE_BLOB :: int where "SQLITE_BLOB = 4"
definition SQLITE_NULL :: int where "SQLITE_NULL = 5"

fun sqlite3_value_type :: "sqlite_value \<Rightarrow> int" where
  "sqlite3_value_type (VInteger _) = SQLITE_INTEGER"
| "sqlite3_value_type (VFloat _) = SQLITE_FLOAT"
| "sqlite3_value_type (VText _) = SQLITE_TEXT"
| "sqlite3_value_type (VBlob _) = SQLITE_BLOB"
| "sqlite3_value_type VNull = SQLITE_NULL"

text \<open>C's \<open>%\<close> truncates towards zero (also SQLite's \<open>%\<close> on integers).\<close>

definition c_rem :: "int \<Rightarrow> int \<Rightarrow> int" where
  "c_rem a b = sgn a * (\<bar>a\<bar> mod \<bar>b\<bar>)"

subsection \<open>dbutils.c: \<open>dbutils_value_compare\<close>\<close>

text \<open>
  \<open>strcmp\<close> compares unsigned bytes up to the first NUL; the end of the list is the
  terminator. C fixes only the sign of the result; the model returns the difference of the
  first two bytes that differ. \<open>memcmp\<close> does the same over the first \<open>n\<close> bytes.
\<close>

fun strcmp :: "string \<Rightarrow> string \<Rightarrow> int" where
  "strcmp [] [] = 0"
| "strcmp [] (y # ys) = - int (of_char y)"
| "strcmp (x # xs) [] = int (of_char x)"
| "strcmp (x # xs) (y # ys) =
     (if x \<noteq> y then int (of_char x) - int (of_char y)
      else if of_char x = (0::nat) then 0
      else strcmp xs ys)"

fun memcmp :: "blob \<Rightarrow> blob \<Rightarrow> nat \<Rightarrow> int" where
  "memcmp (x # xs) (y # ys) (Suc n) = (if x \<noteq> y then uint x - uint y else memcmp xs ys n)"
| "memcmp _ _ _ = 0"

text \<open>
  The arguments are pointers, so each may be NULL (\<open>None\<close>). Pointer equality is modelled
  for two NULL pointers; two equal non-NULL pointers hold one value, which the typed
  comparison below finds equal too.
\<close>

fun dbutils_value_compare :: "sqlite_value option \<Rightarrow> sqlite_value option \<Rightarrow> int" where
  "dbutils_value_compare None None = 0"
| "dbutils_value_compare None (Some _) = -1"
| "dbutils_value_compare (Some _) None = 1"
| "dbutils_value_compare (Some lvalue) (Some rvalue) =
     (let l_type = sqlite3_value_type lvalue; r_type = sqlite3_value_type rvalue in
      if l_type \<noteq> r_type then r_type - l_type
      else (case (lvalue, rvalue) of
              (VInteger l_int, VInteger r_int) \<Rightarrow>
                (if l_int < r_int then -1 else if l_int > r_int then 1 else 0)
            | (VFloat l_double, VFloat r_double) \<Rightarrow>
                (if l_double < r_double then -1 else if l_double > r_double then 1 else 0)
            | (VText l_text, VText r_text) \<Rightarrow> strcmp l_text r_text
            | (VBlob l_blob, VBlob r_blob) \<Rightarrow>
                (let l_size = length l_blob; r_size = length r_blob;
                     cmp = memcmp l_blob r_blob (if l_size < r_size then l_size else r_size)
                 in if cmp \<noteq> 0 then cmp else int l_size - int r_size)
            | _ \<Rightarrow> 0))"

section \<open>The version clock (cloudsync.c)\<close>

text \<open>
  The part of \<open>struct cloudsync_context\<close> that the clock and the merge engine read and
  write. \<open>db_version\<close> is the last committed version (\<open>CLOUDSYNC_VALUE_NOTSET\<close> before it is
  loaded), \<open>pending_db_version\<close> the version the open transaction will commit at.
\<close>

definition CLOUDSYNC_VALUE_NOTSET :: int where "CLOUDSYNC_VALUE_NOTSET = -1"
definition CLOUDSYNC_MIN_DB_VERSION :: int where "CLOUDSYNC_MIN_DB_VERSION = 0"
definition INT64_MAX :: int where "INT64_MAX = 2 ^ 63 - 1"

datatype table_algo =
    table_algo_none
  | table_algo_crdt_cls
  | table_algo_crdt_gos
  | table_algo_crdt_dws
  | table_algo_crdt_aws

record cloudsync_table_context =
  algo :: table_algo
  name :: string
  col_name :: "string list"
  npks :: nat
  enabled :: bool

record cloudsync_context =
  insync :: bool
  merge_equal_values :: bool
  data_version :: int
  schema_version :: int
  schema_hash :: "64 word"
  db_version :: int
  pending_db_version :: int
  seq :: int
  tables :: "cloudsync_table_context list"

text \<open>
  What the host database answers when one of the context's three prepared statements is
  stepped: \<open>PRAGMA data_version\<close>, \<open>PRAGMA schema_version\<close> and the \<open>max(db_version)\<close> query
  over all meta tables. \<open>StepError\<close> is any result code other than \<open>SQLITE_ROW\<close> and
  \<open>SQLITE_DONE\<close> (also the misuse code of stepping the statement when it was never prepared).
  The remaining fields stand for code that is not part of the sources at hand: the
  primary-key codec (\<open>pk_decode_prikey\<close> returns a negative number when the key does not
  decode), the error code of the connection, the host's result code for a write to a user
  table (\<open>SQLITE_DONE\<close> unless a constraint, a trigger or a row policy rejects it), and the
  byte comparison described at \<open>merge_did_cid_win\<close>. The answers are taken to be the same
  throughout one call of the engine.

  The last three fields are what the host does with a write to a user table that it accepts,
  given the table's name and its rows. \<open>column_affinity\<close> is the value a column stores for a
  value bound to it (a TEXT column stores \<open>'5'\<close> for the integer 5). \<open>upsert_conflict\<close> is the
  key of the row on which \<open>INSERT ... ON CONFLICT DO UPDATE\<close>, which names no conflict target,
  finds a uniqueness conflict other than on the key to insert, when there is one.
  \<open>insert_ignored\<close> tells whether \<open>INSERT OR IGNORE\<close> of a key skips the row because a
  constraint on a defaulted column fails; the step answers \<open>SQLITE_DONE\<close> all the same.
\<close>

datatype 'a step = StepError | StepDone | StepRow 'a

record host =
  pragma_data_version :: "int step"
  pragma_schema_version :: "int step"
  db_version_rebuild_rc :: int
  db_version_query :: "int step"
  pk_encode_prikey :: "sqlite_value list \<Rightarrow> blob"
  pk_decode_prikey :: "blob \<Rightarrow> int"
  sqlite3_errcode :: int
  real_write_rc :: "string \<Rightarrow> blob \<Rightarrow> int"
  site_id_memcmp :: "blob \<Rightarrow> int \<Rightarrow> int"
  column_affinity :: "string \<Rightarrow> string \<Rightarrow> sqlite_value \<Rightarrow> sqlite_value"
  upsert_conflict ::
    "string \<Rightarrow> (blob \<rightharpoonup> (string \<Rightarrow> sqlite_value)) \<Rightarrow> blob \<Rightarrow> string \<Rightarrow> sqlite_value \<Rightarrow> blob option"
  insert_ignored :: "string \<Rightarrow> (blob \<rightharpoonup> (string \<Rightarrow> sqlite_value)) \<Rightarrow> blob \<Rightarrow> bool"

datatype CLOUDSYNC_STMT_VALUE =
    CLOUDSYNC_STMT_VALUE_ERROR
  | CLOUDSYNC_STMT_VALUE_UNCHANGED
  | CLOUDSYNC_STMT_VALUE_CHANGED

text \<open>
  \<open>stmt_execute\<close> dispatches on the statement it is given; the three cases are three
  functions here. A PRAGMA answers with a row; when it answers \<open>SQLITE_DONE\<close> the column read
  yields 0.
\<close>

definition stmt_execute_data_version ::
  "host \<Rightarrow> cloudsync_context \<Rightarrow> CLOUDSYNC_STMT_VALUE \<times> cloudsync_context" where
  "stmt_execute_data_version h data =
     (case pragma_data_version h of
        StepError \<Rightarrow> (CLOUDSYNC_STMT_VALUE_ERROR, data)
      | StepDone \<Rightarrow>
          (if 0 \<noteq> data_version data
           then (CLOUDSYNC_STMT_VALUE_CHANGED, data\<lparr>data_version := 0\<rparr>)
           else (CLOUDSYNC_STMT_VALUE_UNCHANGED, data))
      | StepRow version \<Rightarrow>
          (if version \<noteq> data_version data
           then (CLOUDSYNC_STMT_VALUE_CHANGED, data\<lparr>data_version := version\<rparr>)
           else (CLOUDSYNC_STMT_VALUE_UNCHANGED, data)))"

definition stmt_execute_schema_version ::
  "host \<Rightarrow> cloudsync_context \<Rightarrow> CLOUDSYNC_STMT_VALUE \<times> cloudsync_context" where
  "stmt_execute_schema_version h data =
     (case pragma_schema_version h of
        StepError \<Rightarrow> (CLOUDSYNC_STMT_VALUE_ERROR, data)
      | StepDone \<Rightarrow>
          (if 0 > schema_version data
           then (CLOUDSYNC_STMT_VALUE_CHANGED, data\<lparr>schema_version := 0\<rparr>)
           else (CLOUDSYNC_STMT_VALUE_UNCHANGED, data))
      | StepRow version \<Rightarrow>
          (if version > schema_version data
           then (CLOUDSYNC_STMT_VALUE_CHANGED, data\<lparr>schema_version := version\<rparr>)
           else (CLOUDSYNC_STMT_VALUE_UNCHANGED, data)))"

definition stmt_execute_db_version ::
  "host \<Rightarrow> cloudsync_context \<Rightarrow> CLOUDSYNC_STMT_VALUE \<times> cloudsync_context" where
  "stmt_execute_db_version h data =
     (case db_version_query h of
        StepError \<Rightarrow> (CLOUDSYNC_STMT_VALUE_ERROR, data)
      | StepDone \<Rightarrow> (CLOUDSYNC_STMT_VALUE_CHANGED, data\<lparr>db_version := CLOUDSYNC_MIN_DB_VERSION\<rparr>)
      | StepRow v \<Rightarrow> (CLOUDSYNC_STMT_VALUE_CHANGED, data\<lparr>db_version := v\<rparr>))"

definition db_version_rerun :: "host \<Rightarrow> cloudsync_context \<Rightarrow> int \<times> cloudsync_context" where
  "db_version_rerun h data =
     (case stmt_execute_schema_version h data of (schema_changed, data1) \<Rightarrow>
        if schema_changed = CLOUDSYNC_STMT_VALUE_ERROR then (-1, data1)
        else if schema_changed = CLOUDSYNC_STMT_VALUE_CHANGED \<and> db_version_rebuild_rc h \<noteq> SQLITE_OK
        then (-1, data1)
        else (case stmt_execute_db_version h data1 of (rc, data2) \<Rightarrow>
                if rc = CLOUDSYNC_STMT_VALUE_ERROR then (-1, data2) else (0, data2)))"

definition db_version_check_uptodate ::
  "host \<Rightarrow> cloudsync_context \<Rightarrow> int \<times> cloudsync_context" where
  "db_version_check_uptodate h data =
     (case stmt_execute_data_version h data of (rc, data1) \<Rightarrow>
        if rc = CLOUDSYNC_STMT_VALUE_ERROR then (-1, data1)
        else if db_version data1 \<noteq> CLOUDSYNC_VALUE_NOTSET \<and> rc = CLOUDSYNC_STMT_VALUE_UNCHANGED
        then (0, data1)
        else db_version_rerun h data1)"

text \<open>
  \<open>db_version_next\<close> returns \<open>-1\<close> when the check fails. The addition \<open>db_version + 1\<close> is
  on \<open>sqlite3_int64\<close>; it is defined in C only below \<open>INT64_MAX\<close>, which the theorems about
  it assume.
\<close>

definition db_version_next :: "host \<Rightarrow> cloudsync_context \<Rightarrow> int \<Rightarrow> int \<times> cloudsync_context" where
  "db_version_next h data merging_version =
     (case db_version_check_uptodate h data of (rc, data1) \<Rightarrow>
        if rc \<noteq> SQLITE_OK then (-1, data1)
        else
          (let result = db_version data1 + 1;
               result = (if result < pending_db_version data1 then pending_db_version data1
                         else result);
               result = (if merging_version \<noteq> CLOUDSYNC_VALUE_NOTSET \<and> result < merging_version
                         then merging_version else result)
           in (result, data1\<lparr>pending_db_version := result\<rparr>)))"

definition cloudsync_commit_hook :: "cloudsync_context \<Rightarrow> cloudsync_context" where
  "cloudsync_commit_hook data =
     data\<lparr>db_version := pending_db_version data,
          pending_db_version := CLOUDSYNC_VALUE_NOTSET,
          seq := 0\<rparr>"

definition cloudsync_rollback_hook :: "cloudsync_context \<Rightarrow> cloudsync_context" where
  "cloudsync_rollback_hook data = data\<lparr>pending_db_version := CLOUDSYNC_VALUE_NOTSET, seq := 0\<rparr>"

text \<open>\<open>BUMP_SEQ\<close>: the old value of \<open>seq\<close>, and the context with \<open>seq\<close> incremented.\<close>

definition BUMP_SEQ :: "cloudsync_context \<Rightarrow> int \<times> cloudsync_context" where
  "BUMP_SEQ data = (seq data, data\<lparr>seq := seq data + 1\<rparr>)"

section \<open>The database\<close>

text \<open>
  Modelled from the spec: the macro \<open>CLOUDSYNC_TOMBSTONE_VALUE\<close> is declared in a header that
  is not among the sources; the spec gives the sentinel column name as \<open>__[RIP]__\<close>.
\<close>

definition CLOUDSYNC_TOMBSTONE_VALUE :: string where
  "CLOUDSYNC_TOMBSTONE_VALUE = ''__[RIP]__''"

text \<open>
  A row of a meta table \<open>"<name>_cloudsync" (pk, col_name, col_version, db_version, site_id,
  seq)\<close>, whose primary key is \<open>(pk, col_name)\<close>. A meta table is the list of its rows. A user
  table maps the encoded primary key of each of its rows to the values of the non-key
  columns; a row inserted with the key alone gets the schema's column defaults.
  \<open>cloudsync_site_id\<close> lists the known site ids, the rowid of each being its position (the
  local site at 0).
\<close>

record meta_row =
  meta_pk :: blob
  meta_col_name :: string
  meta_col_version :: int
  meta_db_version :: int
  meta_seq :: int
  meta_site_id :: int

type_synonym user_row = "string \<Rightarrow> sqlite_value"

record database =
  meta_tables :: "string \<Rightarrow> meta_row list"
  real_tables :: "string \<Rightarrow> blob \<rightharpoonup> user_row"
  column_default :: "string \<Rightarrow> user_row"
  cloudsync_site_id :: "blob list"
  cloudsync_schema_versions :: "64 word list"
  cloudsync_settings :: "string \<rightharpoonup> int"

text \<open>
  The state an operation of the engine works on: the connection's context, the database,
  the \<open>rowid\<close> out-parameter of the virtual table's \<open>xUpdate\<close>, and whether the connection
  is in autocommit mode (outside a transaction, so that each statement that writes is a
  transaction of its own).
\<close>

record state =
  ctx :: cloudsync_context
  db :: database
  rowid :: int
  autocommit :: bool

definition meta_of :: "state \<Rightarrow> cloudsync_table_context \<Rightarrow> meta_row list" where
  "meta_of s table = meta_tables (db s) (name table)"

definition set_meta :: "state \<Rightarrow> cloudsync_table_context \<Rightarrow> meta_row list \<Rightarrow> state" where
  "set_meta s table t = s\<lparr>db := (db s)\<lparr>meta_tables := (meta_tables (db s))(name table := t)\<rparr>\<rparr>"

definition real_of :: "state \<Rightarrow> cloudsync_table_context \<Rightarrow> blob \<rightharpoonup> user_row" where
  "real_of s table = real_tables (db s) (name table)"

definition set_real :: "state \<Rightarrow> cloudsync_table_context \<Rightarrow> (blob \<rightharpoonup> user_row) \<Rightarrow> state" where
  "set_real s table r = s\<lparr>db := (db s)\<lparr>real_tables := (real_tables (db s))(name table := r)\<rparr>\<rparr>"

subsection \<open>The registry of augmented tables\<close>

definition tolower :: "char \<Rightarrow> char" where
  "tolower c =
     (let n = (of_char c :: nat) in if 65 \<le> n \<and> n \<le> 90 then char_of (n + 32) else c)"

definition strcasecmp :: "string \<Rightarrow> string \<Rightarrow> int" where
  "strcasecmp a b = strcmp (map tolower a) (map tolower b)"

definition table_lookup :: "cloudsync_context \<Rightarrow> string \<Rightarrow> cloudsync_table_context option" where
  "table_lookup cdata table_name = find (\<lambda>t. strcasecmp (name t) table_name = 0) (tables cdata)"

text \<open>
  \<open>table_column_lookup\<close> yields the precompiled statement of the first registered column
  whose name matches; the model yields that column's registered name.
\<close>

definition table_column_lookup :: "cloudsync_table_context \<Rightarrow> string \<Rightarrow> string option" where
  "table_column_lookup table colname = find (\<lambda>c. strcasecmp c colname = 0) (col_name table)"

definition table_set_enabled :: "state \<Rightarrow> cloudsync_table_context \<Rightarrow> bool \<Rightarrow> state" where
  "table_set_enabled s table v =
     s\<lparr>ctx := (ctx s)\<lparr>tables :=
          map (\<lambda>t. if name t = name table then t\<lparr>enabled := v\<rparr> else t) (tables (ctx s))\<rparr>\<rparr>"

definition SYNCBIT_SET :: "state \<Rightarrow> state" where
  "SYNCBIT_SET s = s\<lparr>ctx := (ctx s)\<lparr>insync := True\<rparr>\<rparr>"

definition SYNCBIT_RESET :: "state \<Rightarrow> state" where
  "SYNCBIT_RESET s = s\<lparr>ctx := (ctx s)\<lparr>insync := False\<rparr>\<rparr>"

subsection \<open>The prepared statements of \<open>table_add_stmts\<close>\<close>

text \<open>
  Each statement is the function its SQL text computes on the rows of the meta table.
  Statements that read, and statements that write a meta table, are taken to succeed: the
  host fails them only on an I/O or memory error.
\<close>

definition meta_pkexists_stmt :: "meta_row list \<Rightarrow> blob \<Rightarrow> bool" where
  "meta_pkexists_stmt t pk = list_ex (\<lambda>r. meta_pk r = pk) t"

definition is_key :: "blob \<Rightarrow> string \<Rightarrow> meta_row \<Rightarrow> bool" where
  "is_key pk colname r = (meta_pk r = pk \<and> meta_col_name r = colname)"

text \<open>\<open>CASE col_version % 2 WHEN 0 THEN col_version + 1 ELSE col_version + 2 END\<close>\<close>

definition next_live_version :: "int \<Rightarrow> int" where
  "next_live_version v = (if c_rem v 2 = 0 then v + 1 else v + 2)"

definition meta_sentinel_update_stmt :: "meta_row list \<Rightarrow> int \<Rightarrow> int \<Rightarrow> blob \<Rightarrow> meta_row list" where
  "meta_sentinel_update_stmt t dbversion seqno pk =
     map (\<lambda>r. if is_key pk CLOUDSYNC_TOMBSTONE_VALUE r
               then r\<lparr>meta_col_version := next_live_version (meta_col_version r),
                      meta_db_version := dbversion, meta_seq := seqno, meta_site_id := 0\<rparr>
               else r) t"

definition meta_sentinel_insert_stmt :: "meta_row list \<Rightarrow> blob \<Rightarrow> int \<Rightarrow> int \<Rightarrow> meta_row list" where
  "meta_sentinel_insert_stmt t pk dbversion seqno =
     (if list_ex (is_key pk CLOUDSYNC_TOMBSTONE_VALUE) t
      then meta_sentinel_update_stmt t dbversion seqno pk
      else t @ [\<lparr>meta_pk = pk, meta_col_name = CLOUDSYNC_TOMBSTONE_VALUE, meta_col_version = 1,
                  meta_db_version = dbversion, meta_seq = seqno, meta_site_id = 0\<rparr>])"

definition meta_row_insert_update_stmt ::
  "meta_row list \<Rightarrow> blob \<Rightarrow> string \<Rightarrow> int \<Rightarrow> int \<Rightarrow> int \<Rightarrow> meta_row list" where
  "meta_row_insert_update_stmt t pk colname colversion dbversion seqno =
     (if list_ex (is_key pk colname) t
      then map (\<lambda>r. if is_key pk colname r
                     then r\<lparr>meta_col_version := meta_col_version r + 1,
                            meta_db_version := dbversion, meta_seq := seqno, meta_site_id := 0\<rparr>
                     else r) t
      else t @ [\<lparr>meta_pk = pk, meta_col_name = colname, meta_col_version = colversion,
                  meta_db_version = dbversion, meta_seq = seqno, meta_site_id = 0\<rparr>])"

definition meta_row_drop_stmt :: "meta_row list \<Rightarrow> blob \<Rightarrow> meta_row list" where
  "meta_row_drop_stmt t pk =
     filter (\<lambda>r. \<not> (meta_pk r = pk \<and> meta_col_name r \<noteq> CLOUDSYNC_TOMBSTONE_VALUE)) t"

text \<open>
  \<open>UPDATE OR REPLACE ... SET pk=?, db_version=?, col_version=1, seq=cloudsync_seq(),
  site_id=0 WHERE (pk=? AND col_name!='__[RIP]__')\<close>: the rows of the old key move to the
  new key and replace the rows they collide with. Every function of the extension is
  registered \<open>SQLITE_DETERMINISTIC\<close>, so the host evaluates \<open>cloudsync_seq()\<close> once for the
  statement; \<open>seqno\<close> is that value.
\<close>

definition meta_update_move_stmt :: "meta_row list \<Rightarrow> blob \<Rightarrow> int \<Rightarrow> int \<Rightarrow> blob \<Rightarrow> meta_row list" where
  "meta_update_move_stmt t pk dbversion seqno oldpk =
     (let moved = filter (\<lambda>r. meta_pk r = oldpk \<and> meta_col_name r \<noteq> CLOUDSYNC_TOMBSTONE_VALUE) t;
          kept = filter (\<lambda>r. \<not> (meta_pk r = oldpk \<and> meta_col_name r \<noteq> CLOUDSYNC_TOMBSTONE_VALUE)
                            \<and> \<not> (meta_pk r = pk \<and> meta_col_name r \<in> set (map meta_col_name moved))) t
      in kept @ map (\<lambda>r. r\<lparr>meta_pk := pk, meta_db_version := dbversion, meta_col_version := 1,
                           meta_seq := seqno, meta_site_id := 0\<rparr>) moved)"

text \<open>
  \<open>SELECT COALESCE((SELECT col_version ... WHERE pk=? AND col_name='__[RIP]__'),
  (SELECT 1 ... WHERE pk=?))\<close>, read with \<open>sqlite3_column_int64\<close>, which turns NULL into 0.
\<close>

definition meta_local_cl_stmt :: "meta_row list \<Rightarrow> blob \<Rightarrow> int" where
  "meta_local_cl_stmt t pk =
     (case find (is_key pk CLOUDSYNC_TOMBSTONE_VALUE) t of
        Some r \<Rightarrow> meta_col_version r
      | None \<Rightarrow> (if list_ex (\<lambda>r. meta_pk r = pk) t then 1 else 0))"

text \<open>\<open>INSERT OR REPLACE ... VALUES (?, ?, ?, cloudsync_db_version_next(?), ?, ?)\<close>, given
  the value \<open>v\<close> of the function call.\<close>

definition meta_winner_clock_stmt ::
  "meta_row list \<Rightarrow> blob \<Rightarrow> string \<Rightarrow> int \<Rightarrow> int \<Rightarrow> int \<Rightarrow> int \<Rightarrow> meta_row list" where
  "meta_winner_clock_stmt t pk colname colversion v seqno ord =
     filter (\<lambda>r. \<not> is_key pk colname r) t
       @ [\<lparr>meta_pk = pk, meta_col_name = colname, meta_col_version = colversion,
            meta_db_version = v, meta_seq = seqno, meta_site_id = ord\<rparr>]"

definition meta_merge_delete_drop :: "meta_row list \<Rightarrow> blob \<Rightarrow> meta_row list" where
  "meta_merge_delete_drop t pk =
     filter (\<lambda>r. \<not> (meta_pk r = pk \<and> meta_col_name r \<noteq> CLOUDSYNC_TOMBSTONE_VALUE)) t"

definition meta_zero_clock_stmt :: "meta_row list \<Rightarrow> int \<Rightarrow> blob \<Rightarrow> meta_row list" where
  "meta_zero_clock_stmt t v pk =
     map (\<lambda>r. if meta_pk r = pk \<and> meta_col_name r \<noteq> CLOUDSYNC_TOMBSTONE_VALUE
               then r\<lparr>meta_col_version := 0, meta_db_version := v\<rparr> else r) t"

definition meta_col_version_stmt :: "meta_row list \<Rightarrow> blob \<Rightarrow> string \<Rightarrow> int option" where
  "meta_col_version_stmt t pk colname = map_option meta_col_version (find (is_key pk colname) t)"

definition meta_site_id_stmt :: "meta_row list \<Rightarrow> blob \<Rightarrow> string \<Rightarrow> int option" where
  "meta_site_id_stmt t pk colname = map_option meta_site_id (find (is_key pk colname) t)"

fun index_of :: "'a list \<Rightarrow> 'a \<Rightarrow> nat option" where
  "index_of [] x = None"
| "index_of (y # ys) x = (if y = x then Some 0 else map_option Suc (index_of ys x))"

text \<open>\<open>INSERT INTO cloudsync_site_id (site_id) VALUES (?) ON CONFLICT(site_id) DO UPDATE SET
  site_id = site_id RETURNING rowid\<close>\<close>

definition getset_siteid_stmt :: "blob list \<Rightarrow> blob \<Rightarrow> int \<times> blob list" where
  "getset_siteid_stmt sites site =
     (case index_of sites site of
        Some i \<Rightarrow> (int i, sites)
      | None \<Rightarrow> (int (length sites), sites @ [site]))"

text \<open>
  The statements on the user table. \<open>DELETE ... WHERE pk=?\<close> removes the row of the key.
  \<open>INSERT OR IGNORE INTO T (pk...) VALUES (?...)\<close> adds a row of defaults under the key
  unless the key is there already or the host skips the row (\<open>ignored\<close>).
  \<open>INSERT INTO T (pk..., col) VALUES (?..., ?) ON CONFLICT DO UPDATE SET col=?\<close> names no
  conflict target: when the host finds a uniqueness conflict with the row of another key
  (\<open>conflict\<close>) it sets the column in that row and inserts nothing; otherwise it sets the
  column in the row of the key, which it inserts when it is not there. \<open>v\<close> is the value as
  the column stores it.
\<close>

definition real_merge_delete_stmt :: "(blob \<rightharpoonup> user_row) \<Rightarrow> blob \<Rightarrow> (blob \<rightharpoonup> user_row)" where
  "real_merge_delete_stmt r pk = r(pk := None)"

definition real_merge_sentinel_stmt ::
  "(blob \<rightharpoonup> user_row) \<Rightarrow> user_row \<Rightarrow> blob \<Rightarrow> bool \<Rightarrow> (blob \<rightharpoonup> user_row)" where
  "real_merge_sentinel_stmt r dflt pk ignored =
     (case r pk of
        None \<Rightarrow> (if ignored then r else r(pk \<mapsto> dflt))
      | Some _ \<Rightarrow> r)"

definition upsert_row ::
  "(blob \<rightharpoonup> user_row) \<Rightarrow> user_row \<Rightarrow> blob \<Rightarrow> string \<Rightarrow> sqlite_value \<Rightarrow> (blob \<rightharpoonup> user_row)" where
  "upsert_row r dflt pk cname v =
     (case r pk of None \<Rightarrow> r(pk \<mapsto> dflt(cname := v)) | Some row \<Rightarrow> r(pk \<mapsto> row(cname := v)))"

definition col_merge_stmt ::
  "(blob \<rightharpoonup> user_row) \<Rightarrow> user_row \<Rightarrow> blob \<Rightarrow> string \<Rightarrow> sqlite_value \<Rightarrow> blob option
     \<Rightarrow> (blob \<rightharpoonup> user_row)" where
  "col_merge_stmt r dflt pk cname v conflict =
     (case conflict of
        None \<Rightarrow> upsert_row r dflt pk cname v
      | Some k \<Rightarrow>
          (case r k of
             None \<Rightarrow> upsert_row r dflt pk cname v
           | Some row \<Rightarrow> r(k \<mapsto> row(cname := v))))"

definition col_value_stmt :: "(blob \<rightharpoonup> user_row) \<Rightarrow> blob \<Rightarrow> string \<Rightarrow> sqlite_value option" where
  "col_value_stmt r pk cname = map_option (\<lambda>row. row cname) (r pk)"

section \<open>The merge engine (cloudsync.c)\<close>

text \<open>
  Every function returns its result code together with the state it leaves behind, since a
  failing step keeps what the steps before it wrote. The error strings are left out.
\<close>

definition merge_get_local_cl :: "state \<Rightarrow> cloudsync_table_context \<Rightarrow> blob \<Rightarrow> int" where
  "merge_get_local_cl s table pk = meta_local_cl_stmt (meta_of s table) pk"

definition merge_get_col_version ::
  "state \<Rightarrow> cloudsync_table_context \<Rightarrow> string \<Rightarrow> blob \<Rightarrow> int option" where
  "merge_get_col_version s table colname pk = meta_col_version_stmt (meta_of s table) pk colname"

text \<open>
  \<open>merge_set_winner_clock\<close>: the site id is resolved to its ordinal, then the winner-clock
  statement runs. Inside it the SQL function \<open>cloudsync_db_version_next\<close> calls
  \<open>db_version_next\<close> and reports an error when that returns \<open>-1\<close>, which makes the step fail
  with \<open>SQLITE_ERROR\<close>; the site id row written before stays. The statement returns
  \<open>(db_version << 30) | seq\<close>, computed on 64-bit integers, which becomes \<open>*rowid\<close>.
\<close>

definition merge_set_winner_clock ::
  "host \<Rightarrow> state \<Rightarrow> cloudsync_table_context \<Rightarrow> blob \<Rightarrow> string option \<Rightarrow> int \<Rightarrow> int \<Rightarrow> blob \<Rightarrow> int
     \<Rightarrow> int \<times> state" where
  "merge_set_winner_clock h s table pk colname colversion dbversion site seqno =
     (case getset_siteid_stmt (cloudsync_site_id (db s)) site of (ord, sites) \<Rightarrow>
      let s1 = s\<lparr>db := (db s)\<lparr>cloudsync_site_id := sites\<rparr>\<rparr> in
      case db_version_next h (ctx s1) dbversion of (v, cdata) \<Rightarrow>
      let s2 = s1\<lparr>ctx := cdata\<rparr> in
      if v = -1 then (SQLITE_ERROR, s2)
      else (SQLITE_OK,
            (set_meta s2 table
               (meta_winner_clock_stmt (meta_of s2 table) pk
                  (case colname of None \<Rightarrow> CLOUDSYNC_TOMBSTONE_VALUE | Some c \<Rightarrow> c)
                  colversion v seqno ord))
            \<lparr>rowid := sint (push_bit 30 (word_of_int v :: 64 word) OR word_of_int seqno)\<rparr>))"

text \<open>
  \<open>merge_insert_col\<close>. The write to the user table runs with the sync bit set (and, for a
  GOS table, with the table disabled), so no trigger captures it; the host may still reject
  it (\<open>real_write_rc\<close>), and then nothing of it is kept.
\<close>

definition merge_insert_col ::
  "host \<Rightarrow> state \<Rightarrow> cloudsync_table_context \<Rightarrow> blob \<Rightarrow> string \<Rightarrow> sqlite_value \<Rightarrow> int \<Rightarrow> int \<Rightarrow> blob
     \<Rightarrow> int \<Rightarrow> int \<times> state" where
  "merge_insert_col h s table pk colname colvalue colversion dbversion site seqno =
     (case table_column_lookup table colname of
        None \<Rightarrow> (SQLITE_MISUSE, s)
      | Some cname \<Rightarrow>
          if pk_decode_prikey h pk < 0 then (sqlite3_errcode h, s)
          else
            (let s1 = (if algo table = table_algo_crdt_gos then table_set_enabled s table False
                       else s);
                 s2 = SYNCBIT_SET s1;
                 rc = real_write_rc h (name table) pk;
                 s3 = (if rc = SQLITE_DONE
                       then set_real s2 table
                              (col_merge_stmt (real_of s2 table) (column_default (db s2) (name table))
                                 pk cname (column_affinity h (name table) cname colvalue)
                                 (upsert_conflict h (name table) (real_of s2 table) pk cname colvalue))
                       else s2);
                 s4 = SYNCBIT_RESET s3;
                 s5 = (if algo table = table_algo_crdt_gos then table_set_enabled s4 table True
                       else s4)
             in if rc \<noteq> SQLITE_DONE then (rc, s5)
                else merge_set_winner_clock h s5 table pk (Some colname) colversion dbversion
                       site seqno))"

definition merge_delete ::
  "host \<Rightarrow> state \<Rightarrow> cloudsync_table_context \<Rightarrow> blob \<Rightarrow> string \<Rightarrow> int \<Rightarrow> int \<Rightarrow> blob \<Rightarrow> int
     \<Rightarrow> int \<times> state" where
  "merge_delete h s table pk colname cl dbversion site seqno =
     (let s0 = s\<lparr>rowid := 0\<rparr> in
      if pk_decode_prikey h pk < 0 then (sqlite3_errcode h, s0)
      else
        (let s1 = SYNCBIT_SET s0;
             rc = real_write_rc h (name table) pk;
             s2 = (if rc = SQLITE_DONE
                   then set_real s1 table (real_merge_delete_stmt (real_of s1 table) pk)
                   else s1);
             s3 = SYNCBIT_RESET s2;
             rc = (if rc = SQLITE_DONE then SQLITE_OK else rc)
         in if rc \<noteq> SQLITE_OK then (rc, s3)
            else
              (case merge_set_winner_clock h s3 table pk (Some colname) cl dbversion site seqno of
                 (rc, s4) \<Rightarrow>
                   if rc \<noteq> SQLITE_OK then (rc, s4)
                   else (SQLITE_OK,
                         set_meta s4 table (meta_merge_delete_drop (meta_of s4 table) pk)))))"

text \<open>
  The zero-clock statement \<open>UPDATE ... SET col_version = 0, db_version =
  cloudsync_db_version_next(?) WHERE pk=? AND col_name!='__[RIP]__'\<close>. Its function call has
  a bound parameter as its only argument and the function is registered deterministic, so
  the host evaluates it once for the statement, whatever the number of rows it updates.
\<close>

definition merge_zeroclock_on_resurrect ::
  "host \<Rightarrow> state \<Rightarrow> cloudsync_table_context \<Rightarrow> int \<Rightarrow> blob \<Rightarrow> int \<times> state" where
  "merge_zeroclock_on_resurrect h s table dbversion pk =
     (case db_version_next h (ctx s) dbversion of (v, cdata) \<Rightarrow>
      let s1 = s\<lparr>ctx := cdata\<rparr> in
      if v = -1 then (SQLITE_ERROR, s1)
      else (SQLITE_OK, set_meta s1 table (meta_zero_clock_stmt (meta_of s1 table) v pk)))"

text \<open>
  \<open>merge_did_cid_win\<close> only reads; it returns the result code and \<open>*didwin_flag\<close>, which
  the caller initialises to false. When the values tie and \<open>merge_equal_values\<close> is set, the
  source compares the incoming site id with the bytes that the host returns for the stored
  ordinal; that comparison depends on the memory behind those bytes and is left to the host
  (\<open>site_id_memcmp\<close>).
\<close>

definition merge_did_cid_win ::
  "host \<Rightarrow> state \<Rightarrow> cloudsync_table_context \<Rightarrow> blob \<Rightarrow> sqlite_value \<Rightarrow> blob \<Rightarrow> string \<Rightarrow> int
     \<Rightarrow> int \<times> bool" where
  "merge_did_cid_win h s table pk insert_value site colname colversion =
     (case merge_get_col_version s table colname pk of
        None \<Rightarrow> (SQLITE_OK, True)
      | Some local_version \<Rightarrow>
          if local_version \<noteq> colversion \<and> colversion > local_version then (SQLITE_OK, True)
          else if local_version \<noteq> colversion \<and> colversion < local_version then (SQLITE_OK, False)
          else
            (case table_column_lookup table colname of
               None \<Rightarrow> (SQLITE_ERROR, False)
             | Some cname \<Rightarrow>
                 if pk_decode_prikey h pk < 0 then (sqlite3_errcode h, False)
                 else
                   (let local_value = col_value_stmt (real_of s table) pk cname;
                        ret = dbutils_value_compare (Some insert_value) local_value;
                        compare_site_id = (ret = 0 \<and> merge_equal_values (ctx s))
                    in if \<not> compare_site_id then (SQLITE_OK, ret > 0)
                       else
                         (case meta_site_id_stmt (meta_of s table) pk colname of
                            Some local_site_id \<Rightarrow>
                              (SQLITE_OK, site_id_memcmp h site local_site_id > 0)
                          | None \<Rightarrow> (SQLITE_ERROR, False)))))"

definition merge_sentinel_only_insert ::
  "host \<Rightarrow> state \<Rightarrow> cloudsync_table_context \<Rightarrow> blob \<Rightarrow> int \<Rightarrow> int \<Rightarrow> blob \<Rightarrow> int \<Rightarrow> int \<times> state" where
  "merge_sentinel_only_insert h s table pk cl dbversion site seqno =
     (let s0 = s\<lparr>rowid := 0\<rparr> in
      if pk_decode_prikey h pk < 0 then (sqlite3_errcode h, s0)
      else
        (let s1 = SYNCBIT_SET s0;
             rc = real_write_rc h (name table) pk;
             s2 = (if rc = SQLITE_DONE
                   then set_real s1 table
                          (real_merge_sentinel_stmt (real_of s1 table)
                             (column_default (db s1) (name table)) pk
                             (insert_ignored h (name table) (real_of s1 table) pk))
                   else s1);
             s3 = SYNCBIT_RESET s2;
             rc = (if rc = SQLITE_DONE then SQLITE_OK else rc)
         in if rc \<noteq> SQLITE_OK then (rc, s3)
            else
              (case merge_zeroclock_on_resurrect h s3 table dbversion pk of
                 (rc, s4) \<Rightarrow>
                   if rc \<noteq> SQLITE_OK then (rc, s4)
                   else merge_set_winner_clock h s4 table pk None cl dbversion site seqno)))"

text \<open>
  The arguments of an \<open>INSERT INTO cloudsync_changes\<close>, in the order of \<open>argv\<close>; \<open>argv[2]\<close>
  is NULL for a sentinel row.
\<close>

record change =
  insert_tbl :: string
  insert_pk :: blob
  insert_name_arg :: "string option"
  insert_value :: sqlite_value
  insert_col_version :: int
  insert_db_version :: int
  insert_site_id :: blob
  insert_cl :: int
  insert_seq :: int

definition insert_name :: "change \<Rightarrow> string" where
  "insert_name c = (case insert_name_arg c of None \<Rightarrow> CLOUDSYNC_TOMBSTONE_VALUE | Some n \<Rightarrow> n)"

definition cloudsync_merge_insert_gos ::
  "host \<Rightarrow> state \<Rightarrow> cloudsync_table_context \<Rightarrow> change \<Rightarrow> int \<times> state" where
  "cloudsync_merge_insert_gos h s table c =
     merge_insert_col h s table (insert_pk c) (insert_name c) (insert_value c)
       (insert_col_version c) (insert_db_version c) (insert_site_id c) (insert_seq c)"

text \<open>The column-write part of \<open>cloudsync_merge_insert\<close>, from \<open>merge_did_cid_win\<close> on.\<close>

definition merge_column_write ::
  "host \<Rightarrow> state \<Rightarrow> cloudsync_table_context \<Rightarrow> change \<Rightarrow> bool \<Rightarrow> bool \<Rightarrow> int \<times> state" where
  "merge_column_write h s table c needs_resurrect row_exists_locally =
     (case merge_did_cid_win h s table (insert_pk c) (insert_value c) (insert_site_id c)
             (insert_name c) (insert_col_version c) of
        (rc, flag) \<Rightarrow>
          if rc \<noteq> SQLITE_OK then (rc, s)
          else
            (let does_cid_win = (needs_resurrect \<or> \<not> row_exists_locally \<or> flag) in
             if \<not> does_cid_win then (SQLITE_OK, s)
             else merge_insert_col h s table (insert_pk c) (insert_name c) (insert_value c)
                    (insert_col_version c) (insert_db_version c) (insert_site_id c)
                    (insert_seq c)))"

definition cloudsync_merge_insert :: "host \<Rightarrow> state \<Rightarrow> change \<Rightarrow> int \<times> state" where
  "cloudsync_merge_insert h s c =
     (case table_lookup (ctx s) (insert_tbl c) of
        None \<Rightarrow> (SQLITE_ERROR, s)
      | Some table \<Rightarrow>
          if algo table = table_algo_crdt_gos then cloudsync_merge_insert_gos h s table c
          else
            (let local_cl = merge_get_local_cl s table (insert_pk c) in
             if local_cl < 0 then (SQLITE_ERROR, s)
             else if insert_cl c < local_cl then (SQLITE_OK, s)
             else if c_rem (insert_cl c) 2 = 0 then
               (if local_cl = insert_cl c then (SQLITE_OK, s)
                else merge_delete h s table (insert_pk c) (insert_name c) (insert_col_version c)
                       (insert_db_version c) (insert_site_id c) (insert_seq c))
             else if strcmp (insert_name c) CLOUDSYNC_TOMBSTONE_VALUE = 0 then
               (if local_cl = insert_cl c then (SQLITE_OK, s)
                else merge_sentinel_only_insert h s table (insert_pk c) (insert_col_version c)
                       (insert_db_version c) (insert_site_id c) (insert_seq c))
             else
               (let needs_resurrect = (insert_cl c > local_cl \<and> c_rem (insert_cl c) 2 = 1);
                    row_exists_locally = (local_cl \<noteq> 0)
                in if needs_resurrect
                      \<and> (row_exists_locally \<or> (\<not> row_exists_locally \<and> insert_cl c > 1))
                   then
                     (case merge_sentinel_only_insert h s table (insert_pk c) (insert_cl c)
                             (insert_db_version c) (insert_site_id c) (insert_seq c) of
                        (rc, s1) \<Rightarrow>
                          if rc \<noteq> SQLITE_OK then (rc, s1)
                          else merge_column_write h s1 table c needs_resurrect row_exists_locally)
                   else merge_column_write h s table c needs_resurrect row_exists_locally)))"

section \<open>Local change capture (cloudsync.c)\<close>

text \<open>
  The functions the triggers call. The \<open>local_*\<close> helpers run one statement on the meta table
  each; as those statements are taken to succeed, the helpers return the new state only.
\<close>

definition local_update_sentinel ::
  "state \<Rightarrow> cloudsync_table_context \<Rightarrow> blob \<Rightarrow> int \<Rightarrow> int \<Rightarrow> state" where
  "local_update_sentinel s table pk dbversion seqno =
     set_meta s table (meta_sentinel_update_stmt (meta_of s table) dbversion seqno pk)"

definition local_mark_insert_sentinel_meta ::
  "state \<Rightarrow> cloudsync_table_context \<Rightarrow> blob \<Rightarrow> int \<Rightarrow> int \<Rightarrow> state" where
  "local_mark_insert_sentinel_meta s table pk dbversion seqno =
     set_meta s table (meta_sentinel_insert_stmt (meta_of s table) pk dbversion seqno)"

definition local_mark_insert_or_update_meta_impl ::
  "state \<Rightarrow> cloudsync_table_context \<Rightarrow> blob \<Rightarrow> string option \<Rightarrow> int \<Rightarrow> int \<Rightarrow> int \<Rightarrow> state" where
  "local_mark_insert_or_update_meta_impl s table pk colname colversion dbversion seqno =
     set_meta s table
       (meta_row_insert_update_stmt (meta_of s table) pk
          (case colname of None \<Rightarrow> CLOUDSYNC_TOMBSTONE_VALUE | Some c \<Rightarrow> c)
          colversion dbversion seqno)"

definition local_mark_insert_or_update_meta ::
  "state \<Rightarrow> cloudsync_table_context \<Rightarrow> blob \<Rightarrow> string \<Rightarrow> int \<Rightarrow> int \<Rightarrow> state" where
  "local_mark_insert_or_update_meta s table pk colname dbversion seqno =
     local_mark_insert_or_update_meta_impl s table pk (Some colname) 1 dbversion seqno"

definition local_mark_delete_meta ::
  "state \<Rightarrow> cloudsync_table_context \<Rightarrow> blob \<Rightarrow> int \<Rightarrow> int \<Rightarrow> state" where
  "local_mark_delete_meta s table pk dbversion seqno =
     local_mark_insert_or_update_meta_impl s table pk None 2 dbversion seqno"

definition local_drop_meta :: "state \<Rightarrow> cloudsync_table_context \<Rightarrow> blob \<Rightarrow> state" where
  "local_drop_meta s table pk = set_meta s table (meta_row_drop_stmt (meta_of s table) pk)"

text \<open>The move statement evaluates \<open>cloudsync_seq()\<close>, which is \<open>BUMP_SEQ\<close>.\<close>

definition local_update_move_meta ::
  "state \<Rightarrow> cloudsync_table_context \<Rightarrow> blob \<Rightarrow> blob \<Rightarrow> int \<Rightarrow> state" where
  "local_update_move_meta s table pk pk2 dbversion =
     (case BUMP_SEQ (ctx s) of (seqno, cdata) \<Rightarrow>
        set_meta (s\<lparr>ctx := cdata\<rparr>) table
          (meta_update_move_stmt (meta_of s table) pk dbversion seqno pk2))"

text \<open>\<open>f(..., BUMP_SEQ(data))\<close>: bump the counter, then run \<open>f\<close> with the old value.\<close>

definition with_bump_seq :: "state \<Rightarrow> (state \<Rightarrow> int \<Rightarrow> state) \<Rightarrow> state" where
  "with_bump_seq s f = (case BUMP_SEQ (ctx s) of (seqno, cdata) \<Rightarrow> f (s\<lparr>ctx := cdata\<rparr>) seqno)"

text \<open>
  \<open>cloudsync_insert(table_name, NEW.pk...)\<close>. The result of \<open>db_version_next\<close> is used as it
  is, also when it is \<open>-1\<close>. A table that is not registered is an error and nothing is
  written.
\<close>

definition cloudsync_insert :: "host \<Rightarrow> state \<Rightarrow> string \<Rightarrow> sqlite_value list \<Rightarrow> int \<times> state" where
  "cloudsync_insert h s table_name pk_values =
     (case table_lookup (ctx s) table_name of
        None \<Rightarrow> (SQLITE_ERROR, s)
      | Some table \<Rightarrow>
          (let pk = pk_encode_prikey h pk_values in
           case db_version_next h (ctx s) CLOUDSYNC_VALUE_NOTSET of (dbversion, cdata) \<Rightarrow>
           let s1 = s\<lparr>ctx := cdata\<rparr>;
               pk_exists = meta_pkexists_stmt (meta_of s1 table) pk;
               s2 = (if length (col_name table) = 0
                     then with_bump_seq s1
                            (\<lambda>s' seqno. local_mark_insert_sentinel_meta s' table pk dbversion seqno)
                     else if pk_exists
                     then with_bump_seq s1
                            (\<lambda>s' seqno. local_update_sentinel s' table pk dbversion seqno)
                     else s1)
           in (SQLITE_OK,
               foldl (\<lambda>s' c. with_bump_seq s'
                        (\<lambda>s'' seqno. local_mark_insert_or_update_meta s'' table pk c dbversion seqno))
                     s2 (col_name table))))"

text \<open>
  \<open>cloudsync_update(table_name, NEW.pk..., OLD.pk..., NEW.col, OLD.col, ...)\<close>; \<open>cols\<close> are
  the pairs \<open>(NEW.col, OLD.col)\<close> in the order of the registered columns.
\<close>

definition cloudsync_update ::
  "host \<Rightarrow> state \<Rightarrow> string \<Rightarrow> sqlite_value list \<Rightarrow> sqlite_value list
     \<Rightarrow> (sqlite_value \<times> sqlite_value) list \<Rightarrow> int \<times> state" where
  "cloudsync_update h s table_name new_pk_values old_pk_values cols =
     (case table_lookup (ctx s) table_name of
        None \<Rightarrow> (SQLITE_ERROR, s)
      | Some table \<Rightarrow>
          (case db_version_next h (ctx s) CLOUDSYNC_VALUE_NOTSET of (dbversion, cdata) \<Rightarrow>
           let s1 = s\<lparr>ctx := cdata\<rparr>;
               prikey_changed =
                 list_ex (\<lambda>(n, ol). dbutils_value_compare (Some n) (Some ol) \<noteq> 0)
                   (zip new_pk_values old_pk_values);
               pk = pk_encode_prikey h new_pk_values;
               s2 = (if prikey_changed
                     then
                       (let oldpk = pk_encode_prikey h old_pk_values;
                            sa = with_bump_seq s1
                                   (\<lambda>s' seqno. local_mark_delete_meta s' table oldpk dbversion seqno);
                            sb = local_update_move_meta sa table pk oldpk dbversion
                        in with_bump_seq sb
                             (\<lambda>s' seqno. local_mark_insert_sentinel_meta s' table pk dbversion seqno))
                     else s1)
           in (SQLITE_OK,
               foldl (\<lambda>s' (c, (n, ol)).
                        if dbutils_value_compare (Some n) (Some ol) \<noteq> 0
                        then with_bump_seq s'
                               (\<lambda>s'' seqno. local_mark_insert_or_update_meta s'' table pk c dbversion seqno)
                        else s')
                     s2 (zip (col_name table) cols))))"

definition cloudsync_delete :: "host \<Rightarrow> state \<Rightarrow> string \<Rightarrow> sqlite_value list \<Rightarrow> int \<times> state" where
  "cloudsync_delete h s table_name pk_values =
     (case table_lookup (ctx s) table_name of
        None \<Rightarrow> (SQLITE_ERROR, s)
      | Some table \<Rightarrow>
          (case db_version_next h (ctx s) CLOUDSYNC_VALUE_NOTSET of (dbversion, cdata) \<Rightarrow>
           let s1 = s\<lparr>ctx := cdata\<rparr>;
               pk = pk_encode_prikey h pk_values;
               s2 = with_bump_seq s1
                      (\<lambda>s' seqno. local_mark_delete_meta s' table pk dbversion seqno)
           in (SQLITE_OK, local_drop_meta s2 table pk)))"

section \<open>The payload codec (cloudsync.c)\<close>

text \<open>
  \<open>cloudsync_network_header\<close> is a packed struct of 32 bytes whose integers travel in
  network byte order: signature (4 bytes), version (1), libversion (3), expanded_size (4),
  ncols (2), nrows (4), schema_hash (8), unused (6).
\<close>

record cloudsync_network_header =
  signature :: "32 word"
  version :: "8 word"
  libversion :: "8 word list"
  expanded_size :: "32 word"
  ncols :: "16 word"
  nrows :: "32 word"
  header_schema_hash :: "64 word"

definition header_size :: nat where "header_size = 32"

text \<open>The multi-character constant \<open>'CLSY'\<close>.\<close>

definition CLOUDSYNC_PAYLOAD_SIGNATURE :: "32 word" where
  "CLOUDSYNC_PAYLOAD_SIGNATURE = 0x434C5359"

definition CLOUDSYNC_PAYLOAD_VERSION :: "8 word" where "CLOUDSYNC_PAYLOAD_VERSION = 1"

text \<open>\<open>CLOUDSYNC_VERSION\<close> is \<open>"0.8.26"\<close> (cloudsync.h).\<close>

definition CLOUDSYNC_VERSION :: "8 word list" where "CLOUDSYNC_VERSION = [0, 8, 26]"

definition from_be :: "blob \<Rightarrow> 'a::len word" where
  "from_be bs = foldl (\<lambda>acc b. push_bit 8 acc OR ucast b) 0 bs"

fun to_be :: "nat \<Rightarrow> 'a::len word \<Rightarrow> blob" where
  "to_be 0 w = []"
| "to_be (Suc n) w = ucast (drop_bit (8 * n) w) # to_be n w"

definition header_decode :: "blob \<Rightarrow> cloudsync_network_header" where
  "header_decode payload =
     \<lparr>signature = from_be (take 4 payload),
      version = from_be (take 1 (drop 4 payload)),
      libversion = take 3 (drop 5 payload),
      expanded_size = from_be (take 4 (drop 8 payload)),
      ncols = from_be (take 2 (drop 12 payload)),
      nrows = from_be (take 4 (drop 14 payload)),
      header_schema_hash = from_be (take 8 (drop 18 payload))\<rparr>"

definition header_encode :: "cloudsync_network_header \<Rightarrow> blob" where
  "header_encode header =
     to_be 4 (signature header) @ [version header] @ take 3 (libversion header @ [0, 0, 0])
       @ to_be 4 (expanded_size header) @ to_be 2 (ncols header) @ to_be 4 (nrows header)
       @ to_be 8 (header_schema_hash header) @ replicate 6 0"

definition cloudsync_network_header_init ::
  "32 word \<Rightarrow> 16 word \<Rightarrow> 32 word \<Rightarrow> 64 word \<Rightarrow> cloudsync_network_header" where
  "cloudsync_network_header_init expanded n_cols n_rows hash =
     \<lparr>signature = CLOUDSYNC_PAYLOAD_SIGNATURE,
      version = CLOUDSYNC_PAYLOAD_VERSION,
      libversion = CLOUDSYNC_VERSION,
      expanded_size = expanded,
      ncols = n_cols,
      nrows = n_rows,
      header_schema_hash = hash\<rparr>"

text \<open>
  What a SQL function hands back through \<open>sqlite3_result_*\<close>: an error code, an integer,
  NULL or a blob.
\<close>

datatype sql_result =
    ResultError int
  | ResultInt int
  | ResultNull
  | ResultBlob blob

text \<open>
  The codec's collaborators that are not among the sources: the row encoder and decoder of
  the primary-key codec (\<open>pk_encode\<close> gives the bytes of one row, \<open>pk_decode\<close> reads one row
  of \<open>ncols\<close> fields from the buffer and says how many bytes it took) and LZ4
  (\<open>LZ4_compress_default\<close> gives the compressed bytes, none when it fails;
  \<open>LZ4_decompress_safe\<close> gives its return value and the bytes it produced).
\<close>

record codec =
  pk_encode :: "sqlite_value list \<Rightarrow> blob"
  pk_decode :: "blob \<Rightarrow> nat \<Rightarrow> change \<times> nat"
  LZ4_compress_default :: "blob \<Rightarrow> blob"
  LZ4_decompress_safe :: "blob \<Rightarrow> nat \<Rightarrow> int \<times> blob"

subsection \<open>\<open>cloudsync_payload_encode\<close>\<close>

text \<open>
  The aggregate context: \<open>buffer\<close> holds the rows encoded so far (in the source they sit
  behind 32 bytes reserved for the header, which \<open>bused\<close> counts too); memory allocation is
  taken to succeed. SQLite hands the context out zeroed the
  first time it is asked for, in the step function or, when no row was aggregated, in the
  final function.
\<close>

record cloudsync_network_payload =
  buffer :: blob
  balloc :: nat
  bused :: nat
  payload_nrows :: nat
  payload_ncols :: nat

definition payload_zero :: cloudsync_network_payload where
  "payload_zero = \<lparr>buffer = [], balloc = 0, bused = 0, payload_nrows = 0, payload_ncols = 0\<rparr>"

definition CLOUDSYNC_PAYLOAD_MINBUF_SIZE :: nat where
  "CLOUDSYNC_PAYLOAD_MINBUF_SIZE = 512 * 1024"

definition cloudsync_buffer_check :: "cloudsync_network_payload \<Rightarrow> nat \<Rightarrow> cloudsync_network_payload" where
  "cloudsync_buffer_check payload needed =
     (if bused payload + needed > balloc payload
      then
        (let needed1 = (if needed < CLOUDSYNC_PAYLOAD_MINBUF_SIZE then CLOUDSYNC_PAYLOAD_MINBUF_SIZE
                        else needed)
         in payload\<lparr>balloc := balloc payload + needed1,
                    bused := (if payload_nrows payload = 0 then header_size else bused payload)\<rparr>)
      else payload)"

definition cloudsync_payload_encode_step ::
  "codec \<Rightarrow> cloudsync_network_payload \<Rightarrow> sqlite_value list \<Rightarrow> cloudsync_network_payload" where
  "cloudsync_payload_encode_step cd payload argv =
     (let payload1 = (if payload_nrows payload = 0 then payload\<lparr>payload_ncols := length argv\<rparr>
                      else payload);
          row = pk_encode cd argv;
          breq = length row;
          payload2 = cloudsync_buffer_check payload1 breq
      in payload2\<lparr>buffer := buffer payload2 @ row,
                  bused := bused payload2 + breq,
                  payload_nrows := payload_nrows payload2 + 1\<rparr>)"

definition cloudsync_payload_encode_final ::
  "codec \<Rightarrow> cloudsync_context \<Rightarrow> cloudsync_network_payload \<Rightarrow> sql_result" where
  "cloudsync_payload_encode_final cd cdata payload =
     (if payload_nrows payload = 0 then ResultNull
      else
        (let real_buffer_size = int (bused payload) - int header_size;
             z = LZ4_compress_default cd (buffer payload);
             zused = int (length z);
             use_uncompressed_buffer = (zused = 0 \<or> zused > real_buffer_size);
             header = cloudsync_network_header_init
                    (if use_uncompressed_buffer then 0 else word_of_int real_buffer_size)
                    (of_nat (payload_ncols payload)) (of_nat (payload_nrows payload))
                    (schema_hash cdata)
         in ResultBlob (header_encode header @ (if use_uncompressed_buffer then buffer payload else z))))"

text \<open>The aggregate over a result set: the step function on every row, then the final one.\<close>

definition cloudsync_payload_encode ::
  "codec \<Rightarrow> cloudsync_context \<Rightarrow> sqlite_value list list \<Rightarrow> sql_result" where
  "cloudsync_payload_encode cd cdata rows =
     cloudsync_payload_encode_final cd cdata (foldl (cloudsync_payload_encode_step cd) payload_zero rows)"

subsection \<open>\<open>cloudsync_payload_decode\<close> and \<open>cloudsync_payload_apply\<close>\<close>

definition dbutils_check_schema_hash :: "database \<Rightarrow> 64 word \<Rightarrow> bool" where
  "dbutils_check_schema_hash d hash = (hash \<in> set (cloudsync_schema_versions d))"

text \<open>
  Modelled from the spec: the keys \<open>CLOUDSYNC_KEY_CHECK_DBVERSION\<close> and
  \<open>CLOUDSYNC_KEY_CHECK_SEQ\<close> are declared in a header that is not among the sources; the spec
  names the cursor keys \<open>check_dbversion\<close> and \<open>check_seq\<close>.
\<close>

definition CLOUDSYNC_KEY_CHECK_DBVERSION :: string where
  "CLOUDSYNC_KEY_CHECK_DBVERSION = ''check_dbversion''"

definition CLOUDSYNC_KEY_CHECK_SEQ :: string where
  "CLOUDSYNC_KEY_CHECK_SEQ = ''check_seq''"

text \<open>
  \<open>dbutils_settings_get_int_value\<close> reads the value of the key into a zeroed buffer and
  returns \<open>(int) strtol(buffer, NULL, 0)\<close>. A key that is missing leaves the buffer empty, so
  the result is 0. The settings table holds text; the model keeps for each key the integer
  its text denotes. \<open>strtol\<close> clamps it to a \<open>long\<close> and the cast keeps the low 32 bits.
\<close>

definition dbutils_settings_get_int_value :: "database \<Rightarrow> string \<Rightarrow> int" where
  "dbutils_settings_get_int_value d k =
     (case cloudsync_settings d k of
        None \<Rightarrow> 0
      | Some v \<Rightarrow> sint (word_of_int (max (- (2 ^ 63)) (min (2 ^ 63 - 1) v)) :: 32 word))"

definition dbutils_settings_set_key_value :: "state \<Rightarrow> string \<Rightarrow> int \<Rightarrow> state" where
  "dbutils_settings_set_key_value s k v =
     s\<lparr>db := (db s)\<lparr>cloudsync_settings := (cloudsync_settings (db s))(k \<mapsto> v)\<rparr>\<rparr>"

text \<open>
  The optional callback the host may register (\<open>cloudsync_set_payload_apply_callback\<close>). It
  is called before a row is applied, after it, and once at the end; it sees and may change
  its own data and the database (a callback that opens a savepoint takes the connection out
  of autocommit mode), and answers whether the row is approved.
\<close>

datatype apply_step =
    CLOUDSYNC_PAYLOAD_APPLY_WILL_APPLY
  | CLOUDSYNC_PAYLOAD_APPLY_DID_APPLY
  | CLOUDSYNC_PAYLOAD_APPLY_CLEANUP

type_synonym 'x payload_apply_callback =
  "'x \<Rightarrow> change \<Rightarrow> state \<Rightarrow> apply_step \<Rightarrow> int \<Rightarrow> bool \<times> 'x \<times> state"

text \<open>
  What the host does when a statement that writes ends. In autocommit mode the statement is
  a transaction of its own: when it succeeded the host commits and calls the commit hook;
  when it failed the host rolls back what it wrote and calls the rollback hook (the context
  lives in memory and keeps what the statement did to it otherwise). Inside an open
  transaction neither happens, and what a failed statement wrote before it failed stays.
  \<open>auto\<close> is the mode of the connection when the statement started, \<open>s0\<close> the state then.
\<close>

definition statement_commit :: "bool \<Rightarrow> state \<Rightarrow> state" where
  "statement_commit auto s = (if auto then s\<lparr>ctx := cloudsync_commit_hook (ctx s)\<rparr> else s)"

definition statement_rollback :: "bool \<Rightarrow> state \<Rightarrow> state \<Rightarrow> state" where
  "statement_rollback auto s0 s =
     (if auto then s\<lparr>db := db s0, ctx := cloudsync_rollback_hook (ctx s)\<rparr> else s)"

text \<open>
  Stepping \<open>INSERT INTO cloudsync_changes ... VALUES (?,?,?,?,?,?,?,?,?)\<close> calls the virtual
  table's \<open>xUpdate\<close>, \<open>cloudsync_changesvtab_update\<close>, which for an INSERT is
  \<open>cloudsync_merge_insert\<close>; the step answers \<open>SQLITE_DONE\<close> when that returns \<open>SQLITE_OK\<close> and
  its error code otherwise, and then the statement ends.
\<close>

definition changes_insert_step :: "host \<Rightarrow> state \<Rightarrow> change \<Rightarrow> int \<times> state" where
  "changes_insert_step h s c =
     (case cloudsync_merge_insert h s c of
        (rc, s') \<Rightarrow>
          if rc = SQLITE_OK then (SQLITE_DONE, statement_commit (autocommit s) s')
          else (rc, statement_rollback (autocommit s) s s'))"

text \<open>
  The body of the loop of \<open>cloudsync_payload_apply\<close> for one decoded row. It takes and gives
  the last result code, the last decoded row, the callback's data and the state. A row that
  the callback does not approve is not stepped, and the result code stays the one of the
  row before.
\<close>

definition payload_apply_row ::
  "host \<Rightarrow> 'x payload_apply_callback option \<Rightarrow> int \<times> change \<times> 'x \<times> state \<Rightarrow> change
     \<Rightarrow> int \<times> change \<times> 'x \<times> state" where
  "payload_apply_row h cb acc c =
     (case acc of (rc, _, xdata, s) \<Rightarrow>
      case (case cb of None \<Rightarrow> (True, xdata, s)
                     | Some f \<Rightarrow> f xdata c s CLOUDSYNC_PAYLOAD_APPLY_WILL_APPLY SQLITE_OK) of
        (approved, xdata1, s1) \<Rightarrow>
      case (if approved then changes_insert_step h s1 c else (rc, s1)) of (rc1, s2) \<Rightarrow>
      case (case cb of None \<Rightarrow> (True, xdata1, s2)
                     | Some f \<Rightarrow> f xdata1 c s2 CLOUDSYNC_PAYLOAD_APPLY_DID_APPLY rc1) of
        (_, xdata2, s3) \<Rightarrow> (rc1, c, xdata2, s3))"

text \<open>The loop over the rows of the buffer: decode a row, run the body, move on.\<close>

fun payload_apply_rows ::
  "host \<Rightarrow> codec \<Rightarrow> 'x payload_apply_callback option \<Rightarrow> nat \<Rightarrow> nat \<Rightarrow> blob \<Rightarrow> int \<Rightarrow> change \<Rightarrow> 'x \<Rightarrow> state
     \<Rightarrow> int \<times> change \<times> 'x \<times> state" where
  "payload_apply_rows h cd cb n_cols 0 buf rc decoded xdata s = (rc, decoded, xdata, s)"
| "payload_apply_rows h cd cb n_cols (Suc n) buf rc decoded xdata s =
     (case pk_decode cd buf n_cols of (c, seek) \<Rightarrow>
      case payload_apply_row h cb (rc, decoded, xdata, s) c of (rc1, decoded1, xdata1, s1) \<Rightarrow>
      payload_apply_rows h cd cb n_cols n (drop seek buf) rc1 decoded1 xdata1 s1)"


text \<open>
  \<open>cloudsync_payload_apply\<close> returns \<open>-1\<close> or the number of rows, and sets the result of the
  SQL function. The rows are decoded from the bytes behind the header, after decompression
  when \<open>expanded_size\<close> is not 0. The decoded context starts zeroed.
\<close>

definition change_zero :: change where
  "change_zero = \<lparr>insert_tbl = [], insert_pk = [], insert_name_arg = None, insert_value = VNull,
     insert_col_version = 0, insert_db_version = 0, insert_site_id = [], insert_cl = 0,
     insert_seq = 0\<rparr>"

definition cloudsync_payload_apply ::
  "host \<Rightarrow> codec \<Rightarrow> 'x payload_apply_callback option \<Rightarrow> 'x \<Rightarrow> state \<Rightarrow> blob
     \<Rightarrow> int \<times> sql_result \<times> state" where
  "cloudsync_payload_apply h cd cb xdata0 s payload =
     (let header = header_decode payload in
      if header_schema_hash header \<noteq> schema_hash (ctx s)
         \<and> \<not> dbutils_check_schema_hash (db s) (header_schema_hash header)
      then (-1, ResultError SQLITE_MISMATCH, s)
      else if signature header \<noteq> CLOUDSYNC_PAYLOAD_SIGNATURE \<or> ncols header = 0
      then (-1, ResultError SQLITE_MISUSE, s)
      else
        (let body = drop header_size payload;
             unpacked = (if expanded_size header \<noteq> 0
                         then LZ4_decompress_safe cd body (unat (expanded_size header))
                         else (0, body));
             lz_rc = (word_of_int (fst unpacked) :: 32 word)
         in if expanded_size header \<noteq> 0 \<and> (lz_rc = 0 \<or> lz_rc \<noteq> expanded_size header)
            then (-1, ResultError SQLITE_MISUSE, s)
            else
              (let dbversion = dbutils_settings_get_int_value (db s) CLOUDSYNC_KEY_CHECK_DBVERSION;
                   seqno = dbutils_settings_get_int_value (db s) CLOUDSYNC_KEY_CHECK_SEQ
               in case payload_apply_rows h cd cb (unat (ncols header)) (unat (nrows header))
                         (snd unpacked) SQLITE_OK change_zero xdata0 s of
                    (rc, decoded, xdata1, s1) \<Rightarrow>
                  case (case cb of None \<Rightarrow> (True, xdata1, s1)
                                 | Some f \<Rightarrow> f xdata1 decoded s1 CLOUDSYNC_PAYLOAD_APPLY_CLEANUP rc) of
                    (_, _, s2) \<Rightarrow>
                  let rc = (if rc = SQLITE_DONE then SQLITE_OK else rc) in
                  if rc \<noteq> SQLITE_OK then (-1, ResultError SQLITE_MISUSE, s2)
                  else
                    (let s3 = (if insert_db_version decoded \<ge> dbversion
                               then
                                 (let sa = statement_commit (autocommit s2)
                                             (dbutils_settings_set_key_value s2
                                                CLOUDSYNC_KEY_CHECK_DBVERSION (insert_db_version decoded))
                                  in if insert_seq decoded \<noteq> seqno
                                     then statement_commit (autocommit sa)
                                            (dbutils_settings_set_key_value sa
                                               CLOUDSYNC_KEY_CHECK_SEQ (insert_seq decoded))
                                     else sa)
                               else s2)
                     in (int (unat (nrows header)), ResultInt (int (unat (nrows header))), s3)))))"

definition cloudsync_payload_decode ::
  "host \<Rightarrow> codec \<Rightarrow> 'x payload_apply_callback option \<Rightarrow> 'x \<Rightarrow> state \<Rightarrow> sqlite_value
     \<Rightarrow> sql_result \<times> state" where
  "cloudsync_payload_decode h cd cb xdata0 s arg =
     (case arg of
        VBlob payload \<Rightarrow>
          (let blen = length payload in
           if blen < header_size then (ResultError SQLITE_MISUSE, s)
           else (case cloudsync_payload_apply h cd cb xdata0 s payload of (_, res, s') \<Rightarrow> (res, s')))
      | _ \<Rightarrow> (ResultError SQLITE_MISUSE, s))"

section \<open>Reachable states and the meta-table invariant\<close>

text \<open>
  The triggers that \<open>dbutils_check_triggers\<close> creates call the capture functions after a
  row was written, \<open>FOR EACH ROW WHEN cloudsync_is_sync(T) = 0\<close>. A GOS table has no capture
  trigger for UPDATE and DELETE: while it is enabled, both are aborted before they happen.
\<close>

definition cloudsync_is_sync :: "cloudsync_context \<Rightarrow> string \<Rightarrow> int" where
  "cloudsync_is_sync cdata table_name =
     (if insync cdata then 1
      else (case table_lookup cdata table_name of
              Some table \<Rightarrow> (if enabled table then 0 else 1)
            | None \<Rightarrow> 0))"

text \<open>
  A registry is well formed when its tables have different names and no table has a column
  whose name matches the sentinel name.
\<close>

definition wf_registry :: "cloudsync_context \<Rightarrow> bool" where
  "wf_registry cdata =
     (distinct (map name (tables cdata))
      \<and> (\<forall>t \<in> set (tables cdata). \<forall>c \<in> set (col_name t).
            strcasecmp c CLOUDSYNC_TOMBSTONE_VALUE \<noteq> 0))"

text \<open>
  The sentinel's \<open>col_version\<close> for a key, when the key has a sentinel row, and whether the
  key has a column row.
\<close>

definition sentinel_version :: "meta_row list \<Rightarrow> blob \<Rightarrow> int option" where
  "sentinel_version m pk = meta_col_version_stmt m pk CLOUDSYNC_TOMBSTONE_VALUE"

definition has_column_row :: "meta_row list \<Rightarrow> blob \<Rightarrow> bool" where
  "has_column_row m pk =
     list_ex (\<lambda>x. meta_pk x = pk \<and> meta_col_name x \<noteq> CLOUDSYNC_TOMBSTONE_VALUE) m"




text \<open>
  What an operation on one table leaves alone: the names, algorithms and columns of the
  registered tables, and the meta and user tables of every other name.
\<close>

definition registry :: "cloudsync_context \<Rightarrow> (string \<times> table_algo \<times> string list) list" where
  "registry cdata = map (\<lambda>t. (name t, algo t, col_name t)) (tables cdata)"


text \<open>
  Two conditions under which the invariant is kept; what the code does when one of them
  fails is shown with the examples below.

  \<open>cloudsync_update\<close> decides whether the key changed by comparing the NEW and OLD key values
  with \<open>dbutils_value_compare\<close>, and names the rows by the encoded key. \<open>key_change_seen\<close>
  says that a change of the encoded key does not escape that comparison. It can escape it:
  the comparison of two TEXT values is \<open>strcmp\<close>, which stops at the first NUL byte.

  The sentinel-only branch of \<open>cloudsync_merge_insert\<close> writes the sentinel at the change's
  \<open>col_version\<close>, the resurrect branch at its \<open>cl\<close>. \<open>sentinel_version_is_cl\<close> says that a
  change whose name is the sentinel's carries \<open>col_version = cl\<close>, as every sentinel row that
  the change view emits does; the engine does not check it.
\<close>

definition key_change_seen :: "host \<Rightarrow> sqlite_value list \<Rightarrow> sqlite_value list \<Rightarrow> bool" where
  "key_change_seen h new_pk_values old_pk_values =
     (pk_encode_prikey h new_pk_values \<noteq> pk_encode_prikey h old_pk_values
      \<longrightarrow> list_ex (\<lambda>(n, ol). dbutils_value_compare (Some n) (Some ol) \<noteq> 0)
            (zip new_pk_values old_pk_values))"

definition sentinel_version_is_cl :: "change \<Rightarrow> bool" where
  "sentinel_version_is_cl c =
     (strcmp (insert_name c) CLOUDSYNC_TOMBSTONE_VALUE = 0 \<longrightarrow> insert_col_version c = insert_cl c)"

text \<open>
  The states a replica reaches. It starts with a well-formed registry and empty meta tables
  (the user tables may hold rows already; \<open>init\<close> captures them with \<open>cloudsync_insert\<close>).
  A step is one of:
  \<^item> a row is inserted (or is there already) and \<open>cloudsync_insert\<close> captures it;
  \<^item> a row of a table that is not GOS is updated, its key changing or not, and
    \<open>cloudsync_update\<close> captures it with the NEW and OLD values of the key and of the columns
    (\<open>key_change_seen\<close>);
  \<^item> a row of a table that is not GOS is deleted and \<open>cloudsync_delete\<close> captures it;
  \<^item> \<open>cloudsync_merge_insert\<close> applies a foreign change and returns \<open>SQLITE_OK\<close>
    (\<open>sentinel_version_is_cl\<close>; stepping a statement never answers \<open>SQLITE_OK\<close>);
  \<^item> \<open>cloudsync_merge_insert\<close> fails on a foreign change, of any form, and the host rolls
    back what the statement wrote to the database, as it does in autocommit mode and on a
    \<open>ROLLBACK\<close>; the context keeps what the call did to it;
  \<^item> the context changes in a way that keeps the names, algorithms and columns of the
    registered tables, as the commit and rollback hooks do, or switching a table on and off;
  \<^item> a transaction is opened or closed.
  The host's answers may differ from step to step.
\<close>

inductive reachable :: "state \<Rightarrow> bool" where
  reach_init:
    "wf_registry (ctx s) \<Longrightarrow> \<forall>t \<in> set (tables (ctx s)). meta_of s t = [] \<Longrightarrow> reachable s"
| reach_insert:
    "reachable s \<Longrightarrow> table_lookup (ctx s) table_name = Some table
     \<Longrightarrow> cloudsync_is_sync (ctx s) table_name = 0
     \<Longrightarrow> cloudsync_insert h
           (set_real s table ((real_of s table)(pk_encode_prikey h pk_values \<mapsto> row)))
           table_name pk_values = (rc, s')
     \<Longrightarrow> reachable s'"
| reach_update:
    "reachable s \<Longrightarrow> table_lookup (ctx s) table_name = Some table
     \<Longrightarrow> cloudsync_is_sync (ctx s) table_name = 0
     \<Longrightarrow> algo table \<noteq> table_algo_crdt_gos
     \<Longrightarrow> real_of s table (pk_encode_prikey h old_pk_values) = Some old_row
     \<Longrightarrow> key_change_seen h new_pk_values old_pk_values
     \<Longrightarrow> cloudsync_update h
           (set_real s table
              (((real_of s table)(pk_encode_prikey h old_pk_values := None))
                 (pk_encode_prikey h new_pk_values \<mapsto> new_row)))
           table_name new_pk_values old_pk_values
           (map (\<lambda>c. (new_row c, old_row c)) (col_name table)) = (rc, s')
     \<Longrightarrow> reachable s'"
| reach_delete:
    "reachable s \<Longrightarrow> table_lookup (ctx s) table_name = Some table
     \<Longrightarrow> cloudsync_is_sync (ctx s) table_name = 0
     \<Longrightarrow> algo table \<noteq> table_algo_crdt_gos
     \<Longrightarrow> cloudsync_delete h
           (set_real s table ((real_of s table)(pk_encode_prikey h pk_values := None)))
           table_name pk_values = (rc, s')
     \<Longrightarrow> reachable s'"
| reach_merge:
    "reachable s \<Longrightarrow> \<forall>n pk. real_write_rc h n pk \<noteq> SQLITE_OK
     \<Longrightarrow> sentinel_version_is_cl c
     \<Longrightarrow> cloudsync_merge_insert h s c = (SQLITE_OK, s')
     \<Longrightarrow> reachable s'"
| reach_merge_failed:
    "reachable s \<Longrightarrow> cloudsync_merge_insert h s c = (rc, s') \<Longrightarrow> rc \<noteq> SQLITE_OK
     \<Longrightarrow> reachable (s'\<lparr>db := db s\<rparr>)"
| reach_context:
    "reachable s \<Longrightarrow> registry cdata = registry (ctx s) \<Longrightarrow> reachable (s\<lparr>ctx := cdata\<rparr>)"
| reach_transaction:
    "reachable s \<Longrightarrow> reachable (s\<lparr>autocommit := a\<rparr>)"

section \<open>Example inputs\<close>

text \<open>
  A replica with a CLS table \<open>customers(id PRIMARY KEY, age)\<close> and a GOS table
  \<open>events(id PRIMARY KEY, msg)\<close>, both empty, and a host that answers every statement, in
  autocommit mode, whose columns store the values as they come and whose tables have no
  constraint beside the primary key. The example key codec writes one byte per integer key
  value.
\<close>

definition host0 :: host where
  "host0 = \<lparr>pragma_data_version = StepRow 1, pragma_schema_version = StepRow 1,
     db_version_rebuild_rc = SQLITE_OK, db_version_query = StepRow 0,
     pk_encode_prikey = map (\<lambda>v. case v of VInteger i \<Rightarrow> word_of_int i | _ \<Rightarrow> 0),
     pk_decode_prikey = (\<lambda>pk. int (length pk)),
     sqlite3_errcode = SQLITE_ERROR,
     real_write_rc = (\<lambda>_ _. SQLITE_DONE),
     site_id_memcmp = (\<lambda>_ _. 0),
     column_affinity = (\<lambda>_ _ v. v),
     upsert_conflict = (\<lambda>_ _ _ _ _. None),
     insert_ignored = (\<lambda>_ _ _. False)\<rparr>"

definition customers :: cloudsync_table_context where
  "customers = \<lparr>algo = table_algo_crdt_cls, name = ''customers'', col_name = [''age''], npks = 1,
     enabled = True\<rparr>"

definition events :: cloudsync_table_context where
  "events = \<lparr>algo = table_algo_crdt_gos, name = ''events'', col_name = [''msg''], npks = 1,
     enabled = True\<rparr>"

definition ctx0 :: cloudsync_context where
  "ctx0 = \<lparr>insync = False, merge_equal_values = False, data_version = 1, schema_version = 1,
     schema_hash = 0xAB, db_version = 0, pending_db_version = CLOUDSYNC_VALUE_NOTSET, seq = 0,
     tables = [customers, events]\<rparr>"

definition db0 :: database where
  "db0 = \<lparr>meta_tables = (\<lambda>_. []), real_tables = (\<lambda>_. Map.empty),
     column_default = (\<lambda>_ _. VNull), cloudsync_site_id = [[0]],
     cloudsync_schema_versions = [0xAB, 0xCD], cloudsync_settings = Map.empty\<rparr>"

definition state0 :: state where
  "state0 = \<lparr>ctx = ctx0, db = db0, rowid = 0, autocommit = True\<rparr>"

text \<open>Changes from a peer with site id \<open>[7]\<close>: a tombstone for a key never seen here, a late
  insert of the same key, a resurrecting column write, and a column write to a fresh key.\<close>

definition tombstone_change :: change where
  "tombstone_change = \<lparr>insert_tbl = ''customers'', insert_pk = [1], insert_name_arg = None,
     insert_value = VNull, insert_col_version = 2, insert_db_version = 5, insert_site_id = [7],
     insert_cl = 2, insert_seq = 0\<rparr>"

definition late_insert :: change where
  "late_insert = \<lparr>insert_tbl = ''customers'', insert_pk = [1], insert_name_arg = Some ''age'',
     insert_value = VInteger 20, insert_col_version = 1, insert_db_version = 3,
     insert_site_id = [7], insert_cl = 1, insert_seq = 0\<rparr>"

definition resurrecting_write :: change where
  "resurrecting_write = \<lparr>insert_tbl = ''customers'', insert_pk = [1], insert_name_arg = Some ''age'',
     insert_value = VInteger 21, insert_col_version = 1, insert_db_version = 9,
     insert_site_id = [7], insert_cl = 3, insert_seq = 1\<rparr>"

definition fresh_insert :: change where
  "fresh_insert = \<lparr>insert_tbl = ''customers'', insert_pk = [2], insert_name_arg = Some ''age'',
     insert_value = VInteger 30, insert_col_version = 1, insert_db_version = 7,
     insert_site_id = [7], insert_cl = 1, insert_seq = 1\<rparr>"

definition tombstoned_state :: state where
  "tombstoned_state = snd (cloudsync_merge_insert host0 state0 tombstone_change)"

text \<open>Changes for the GOS table: a column write that carries an even causal length, and a
  sentinel row.\<close>

definition gos_even_write :: change where
  "gos_even_write = \<lparr>insert_tbl = ''events'', insert_pk = [1], insert_name_arg = Some ''msg'',
     insert_value = VText ''hello'', insert_col_version = 1, insert_db_version = 4,
     insert_site_id = [7], insert_cl = 2, insert_seq = 0\<rparr>"

definition gos_sentinel :: change where
  "gos_sentinel = \<lparr>insert_tbl = ''events'', insert_pk = [1], insert_name_arg = None,
     insert_value = VNull, insert_col_version = 1, insert_db_version = 4,
     insert_site_id = [7], insert_cl = 1, insert_seq = 0\<rparr>"

definition inserted_state :: state where
  "inserted_state = snd (cloudsync_merge_insert host0 state0 fresh_insert)"



text \<open>
  A host whose \<open>INSERT OR IGNORE\<close> skips the row of defaults, as it does when a \<open>CHECK\<close>
  constraint refuses the default of a column.
\<close>

definition host_check :: host where
  "host_check = host0\<lparr>insert_ignored := (\<lambda>_ _ _. True)\<rparr>"

text \<open>
  A host whose key codec writes a TEXT key as its length and its bytes, and two TEXT keys
  that differ only behind a NUL byte. In \<open>missed_key_change_state\<close> the row of the second
  key was inserted and deleted, the row of the first key was inserted, and then its key was
  updated to the second key and its column to another value, each step captured.
\<close>

definition host_text :: host where
  "host_text = host0\<lparr>pk_encode_prikey :=
     (\<lambda>vs. concat (map (\<lambda>v. case v of
                               VText t \<Rightarrow> of_nat (length t) # map (\<lambda>ch. of_nat (of_char ch)) t
                             | VInteger i \<Rightarrow> [word_of_int i]
                             | _ \<Rightarrow> [0]) vs))\<rparr>"

definition key_a_nul_b :: sqlite_value where
  "key_a_nul_b = VText [CHR ''a'', CHR 0x00, CHR ''b'']"

definition key_a_nul_c :: sqlite_value where
  "key_a_nul_c = VText [CHR ''a'', CHR 0x00, CHR ''c'']"

definition missed_key_change_state :: state where
  "missed_key_change_state =
     (let k1 = pk_encode_prikey host_text [key_a_nul_b];
          k2 = pk_encode_prikey host_text [key_a_nul_c];
          s1 = snd (cloudsync_insert host_text
                      (set_real state0 customers ((real_of state0 customers)(k2 \<mapsto> (\<lambda>_. VInteger 20))))
                      ''customers'' [key_a_nul_c]);
          s2 = snd (cloudsync_delete host_text
                      (set_real s1 customers ((real_of s1 customers)(k2 := None)))
                      ''customers'' [key_a_nul_c]);
          s3 = snd (cloudsync_insert host_text
                      (set_real s2 customers ((real_of s2 customers)(k1 \<mapsto> (\<lambda>_. VInteger 20))))
                      ''customers'' [key_a_nul_b])
      in snd (cloudsync_update host_text
                (set_real s3 customers
                   (((real_of s3 customers)(k1 := None))(k2 \<mapsto> (\<lambda>_. VInteger 21))))
                ''customers'' [key_a_nul_c] [key_a_nul_b] [(VInteger 21, VInteger 20)]))"

text \<open>A sentinel change for the key of \<open>fresh_insert\<close> whose \<open>col_version\<close> is not its \<open>cl\<close>.\<close>

definition malformed_sentinel :: change where
  "malformed_sentinel = \<lparr>insert_tbl = ''customers'', insert_pk = [2], insert_name_arg = None,
     insert_value = VNull, insert_col_version = 2, insert_db_version = 8, insert_site_id = [7],
     insert_cl = 3, insert_seq = 0\<rparr>"

text \<open>A change for a table that is not registered, with the \<open>db_version\<close> of
  \<open>fresh_insert\<close>.\<close>

definition unknown_table_change :: change where
  "unknown_table_change = \<lparr>insert_tbl = ''orders'', insert_pk = [5], insert_name_arg = Some ''total'',
     insert_value = VInteger 1, insert_col_version = 1, insert_db_version = 7,
     insert_site_id = [7], insert_cl = 1, insert_seq = 0\<rparr>"

text \<open>
  An example codec whose rows are one byte long: byte 1 decodes to \<open>unknown_table_change\<close>,
  any other byte to \<open>fresh_insert\<close>; its compressor always gives up. Three payloads follow:
  one row under a hash that is registered but not the local one, the same row under a hash
  that is not registered, and two rows of one \<open>db_version\<close> under the local hash.
\<close>

definition codec0 :: codec where
  "codec0 = \<lparr>pk_encode = (\<lambda>argv. [of_nat (length argv)]),
     pk_decode = (\<lambda>buf n. case buf of [] \<Rightarrow> (change_zero, 0)
                           | b # _ \<Rightarrow> (if b = 1 then unknown_table_change else fresh_insert, 1)),
     LZ4_compress_default = (\<lambda>_. []),
     LZ4_decompress_safe = (\<lambda>_ _. (0, []))\<rparr>"

definition example_header :: "8 word \<Rightarrow> 8 word \<Rightarrow> blob" where
  "example_header hash n_rows =
     [0x43, 0x4C, 0x53, 0x59, 1, 0, 8, 26, 0, 0, 0, 0, 0, 9, 0, 0, 0, n_rows,
      0, 0, 0, 0, 0, 0, 0, hash, 0, 0, 0, 0, 0, 0]"

definition payload_known :: blob where
  "payload_known = example_header 0xCD 1 @ [2]"

definition payload_unknown :: blob where
  "payload_unknown = example_header 0xEE 1 @ [2]"


section \<open>Basic facts\<close>

lemmas sqlite_codes =
  SQLITE_OK_def SQLITE_ERROR_def SQLITE_MISMATCH_def SQLITE_MISUSE_def SQLITE_ROW_def
  SQLITE_DONE_def

lemmas sqlite_types =
  SQLITE_INTEGER_def SQLITE_FLOAT_def SQLITE_TEXT_def SQLITE_BLOB_def SQLITE_NULL_def

lemma strcmp_refl [simp]: "strcmp x x = 0"
  by (induction x) auto

lemma meta_of_set_meta [simp]: "meta_of (set_meta s table t) table = t"
  by (simp add: meta_of_def set_meta_def)

lemma real_of_set_meta [simp]: "real_of (set_meta s table t) table' = real_of s table'"
  by (simp add: real_of_def set_meta_def)

lemma meta_of_set_real [simp]: "meta_of (set_real s table r) table' = meta_of s table'"
  by (simp add: meta_of_def set_real_def)

lemma real_of_set_real [simp]: "real_of (set_real s table r) table = r"
  by (simp add: real_of_def set_real_def)

lemma meta_of_upd [simp]:
  "meta_of (s\<lparr>ctx := c\<rparr>) table = meta_of s table"
  "meta_of (s\<lparr>rowid := r\<rparr>) table = meta_of s table"
  "meta_of (SYNCBIT_SET s) table = meta_of s table"
  "meta_of (SYNCBIT_RESET s) table = meta_of s table"
  "meta_of (table_set_enabled s t v) table = meta_of s table"
  "meta_of (s\<lparr>db := (db s)\<lparr>cloudsync_site_id := x\<rparr>\<rparr>) table = meta_of s table"
  by (simp_all add: meta_of_def SYNCBIT_SET_def SYNCBIT_RESET_def table_set_enabled_def)

lemma real_of_upd [simp]:
  "real_of (s\<lparr>ctx := c\<rparr>) table = real_of s table"
  "real_of (s\<lparr>rowid := r\<rparr>) table = real_of s table"
  "real_of (SYNCBIT_SET s) table = real_of s table"
  "real_of (SYNCBIT_RESET s) table = real_of s table"
  "real_of (table_set_enabled s t v) table = real_of s table"
  "real_of (s\<lparr>db := (db s)\<lparr>cloudsync_site_id := x\<rparr>\<rparr>) table = real_of s table"
  by (simp_all add: real_of_def SYNCBIT_SET_def SYNCBIT_RESET_def table_set_enabled_def)

lemma winner_clock_meta:
  "merge_set_winner_clock h s table pk colname cv dbv site sq = (rc, s') \<Longrightarrow>
   real_of s' table = real_of s table \<and>
   (rc = SQLITE_OK \<longrightarrow>
      (\<exists>v ord. meta_of s' table =
         meta_winner_clock_stmt (meta_of s table) pk
           (case colname of None \<Rightarrow> CLOUDSYNC_TOMBSTONE_VALUE | Some c \<Rightarrow> c) cv v sq ord)) \<and>
   (rc \<noteq> SQLITE_OK \<longrightarrow> meta_of s' table = meta_of s table)"
  by (fastforce simp: merge_set_winner_clock_def Let_def sqlite_codes split: prod.splits if_splits)

lemma find_winner_clock_same [simp]:
  "find (is_key pk cn) (meta_winner_clock_stmt t pk cn cv v sq ord)
     = Some \<lparr>meta_pk = pk, meta_col_name = cn, meta_col_version = cv,
            meta_db_version = v, meta_seq = sq, meta_site_id = ord\<rparr>"
  by (induction t) (auto simp: meta_winner_clock_stmt_def is_key_def)

lemma find_winner_clock_other [simp]:
  "cn' \<noteq> cn \<Longrightarrow> find (is_key pk cn') (meta_winner_clock_stmt t pk cn cv v sq ord)
     = find (is_key pk cn') t"
  by (induction t) (auto simp: meta_winner_clock_stmt_def is_key_def)

lemma db_upd [simp]:
  "db (SYNCBIT_SET s) = db s"
  "db (SYNCBIT_RESET s) = db s"
  "db (table_set_enabled s t v) = db s"
  by (simp_all add: SYNCBIT_SET_def SYNCBIT_RESET_def table_set_enabled_def)

lemma zeroclock_real:
  "merge_zeroclock_on_resurrect h s table dbv pk = (rc, s') \<Longrightarrow> real_of s' table = real_of s table"
  by (auto simp: merge_zeroclock_on_resurrect_def Let_def split: prod.splits if_splits)

lemma sentinel_only_insert_post:
  assumes "merge_sentinel_only_insert h s table pk cl dbv site sq = (SQLITE_OK, s1)"
      and "0 \<le> pk_decode_prikey h pk"
      and "real_write_rc h (name table) pk = SQLITE_DONE"
  shows "real_of s1 table
           = real_merge_sentinel_stmt (real_of s table) (column_default (db s) (name table)) pk
               (insert_ignored h (name table) (real_of s table) pk)
       \<and> meta_col_version_stmt (meta_of s1 table) pk CLOUDSYNC_TOMBSTONE_VALUE = Some cl"
proof -
  let ?s3 = "SYNCBIT_RESET
               (set_real (SYNCBIT_SET (s\<lparr>rowid := 0\<rparr>)) table
                  (real_merge_sentinel_stmt (real_of (SYNCBIT_SET (s\<lparr>rowid := 0\<rparr>)) table)
                     (column_default (db (SYNCBIT_SET (s\<lparr>rowid := 0\<rparr>))) (name table)) pk
                     (insert_ignored h (name table) (real_of (SYNCBIT_SET (s\<lparr>rowid := 0\<rparr>)) table) pk)))"
  obtain rc4 s4 where z: "merge_zeroclock_on_resurrect h ?s3 table dbv pk = (rc4, s4)"
    by (cases "merge_zeroclock_on_resurrect h ?s3 table dbv pk")
  from assms z have ok4: "rc4 = SQLITE_OK"
    by (auto simp: merge_sentinel_only_insert_def Let_def sqlite_codes split: if_splits)
  from assms z ok4
  have w: "merge_set_winner_clock h s4 table pk None cl dbv site sq = (SQLITE_OK, s1)"
    by (simp add: merge_sentinel_only_insert_def Let_def sqlite_codes)
  have r3: "real_of ?s3 table
              = real_merge_sentinel_stmt (real_of s table) (column_default (db s) (name table)) pk
                  (insert_ignored h (name table) (real_of s table) pk)"
    by simp
  from zeroclock_real[OF z] r3 winner_clock_meta[OF w] show ?thesis
    by (auto simp: meta_col_version_stmt_def)
qed

lemma merge_insert_col_post:
  assumes "merge_insert_col h s table pk colname v cv dbv site sq = (SQLITE_OK, s')"
      and "0 \<le> pk_decode_prikey h pk"
      and "real_write_rc h (name table) pk \<noteq> SQLITE_OK"
  shows "\<exists>cname. table_column_lookup table colname = Some cname
           \<and> real_of s' table
               = col_merge_stmt (real_of s table) (column_default (db s) (name table)) pk cname
                   (column_affinity h (name table) cname v)
                   (upsert_conflict h (name table) (real_of s table) pk cname v)
           \<and> meta_col_version_stmt (meta_of s' table) pk colname = Some cv
           \<and> (\<forall>cn. cn \<noteq> colname \<longrightarrow>
                  meta_col_version_stmt (meta_of s' table) pk cn
                    = meta_col_version_stmt (meta_of s table) pk cn)"
proof -
  from assms obtain cname where l: "table_column_lookup table colname = Some cname"
    by (auto simp: merge_insert_col_def sqlite_codes split: option.splits)
  let ?s1 = "if algo table = table_algo_crdt_gos then table_set_enabled s table False else s"
  let ?s3 = "set_real (SYNCBIT_SET ?s1) table
               (col_merge_stmt (real_of (SYNCBIT_SET ?s1) table)
                  (column_default (db (SYNCBIT_SET ?s1)) (name table)) pk cname
                  (column_affinity h (name table) cname v)
                  (upsert_conflict h (name table) (real_of (SYNCBIT_SET ?s1) table) pk cname v))"
  let ?s4 = "SYNCBIT_RESET ?s3"
  let ?s5 = "if algo table = table_algo_crdt_gos then table_set_enabled ?s4 table True else ?s4"
  from assms l have d: "real_write_rc h (name table) pk = SQLITE_DONE"
    by (auto simp: merge_insert_col_def Let_def split: if_splits)
  from assms l d
  have w: "merge_set_winner_clock h ?s5 table pk (Some colname) cv dbv site sq = (SQLITE_OK, s')"
    by (simp add: merge_insert_col_def Let_def split: if_splits)
  have m: "meta_of ?s5 table = meta_of s table" by simp
  have r: "real_of ?s5 table
             = col_merge_stmt (real_of s table) (column_default (db s) (name table)) pk cname
                 (column_affinity h (name table) cname v)
                 (upsert_conflict h (name table) (real_of s table) pk cname v)"
    by simp
  from winner_clock_meta[OF w] l show ?thesis
    unfolding m r by (auto simp: meta_col_version_stmt_def)
qed

lemma length_to_be [simp]: "length (to_be n w) = n"
  by (induction n) auto

lemma length_header_encode: "length (header_encode header) = 32"
  by (simp add: header_encode_def)

lemma encode_step_nrows:
  "payload_nrows (cloudsync_payload_encode_step cd p argv) = payload_nrows p + 1"
  by (simp add: cloudsync_payload_encode_step_def cloudsync_buffer_check_def Let_def)

lemma foldl_step_nrows:
  "payload_nrows (foldl (cloudsync_payload_encode_step cd) p rows) = payload_nrows p + length rows"
  by (induction rows arbitrary: p) (auto simp: encode_step_nrows)

section \<open>The claims\<close>

subsection \<open>The version clock\<close>

text \<open>
  C8. When the committed \<open>db_version\<close> is loaded (not \<open>CLOUDSYNC_VALUE_NOTSET\<close>) and up to
  date (\<open>PRAGMA data_version\<close> answers the cached value), \<open>db_version_next\<close> returns the
  maximum of \<open>db_version + 1\<close>, \<open>pending_db_version\<close> and the merging version, the latter
  ignored when it is unset, and stores the returned value in \<open>pending_db_version\<close>; nothing
  else of the context changes.
\<close>

theorem db_version_next_is_max:
  assumes "db_version cdata \<noteq> CLOUDSYNC_VALUE_NOTSET"
      and "pragma_data_version h = StepRow (data_version cdata)"
      and "db_version cdata < INT64_MAX"
  shows "db_version_next h cdata merging =
           (let r = (if merging = CLOUDSYNC_VALUE_NOTSET
                     then max (db_version cdata + 1) (pending_db_version cdata)
                     else max (max (db_version cdata + 1) (pending_db_version cdata)) merging)
            in (r, cdata\<lparr>pending_db_version := r\<rparr>))"
  using assms
  by (simp add: db_version_next_def db_version_check_uptodate_def stmt_execute_data_version_def
      SQLITE_OK_def Let_def max_def)

theorem db_version_next_is_max_witness:
  "db_version ctx0 \<noteq> CLOUDSYNC_VALUE_NOTSET
   \<and> pragma_data_version host0 = StepRow (data_version ctx0)
   \<and> db_version ctx0 < INT64_MAX
   \<and> db_version_next host0 ctx0 9 = (9, ctx0\<lparr>pending_db_version := 9\<rparr>)
   \<and> db_version_next host0 ctx0 CLOUDSYNC_VALUE_NOTSET = (1, ctx0\<lparr>pending_db_version := 1\<rparr>)"
proof -
  have h1: "db_version ctx0 \<noteq> CLOUDSYNC_VALUE_NOTSET"
    by (simp add: ctx0_def CLOUDSYNC_VALUE_NOTSET_def)
  have h2: "pragma_data_version host0 = StepRow (data_version ctx0)"
    by (simp add: ctx0_def host0_def)
  have h3: "db_version ctx0 < INT64_MAX"
    by (simp add: ctx0_def INT64_MAX_def)
  have a: "db_version_next host0 ctx0 9 = (9, ctx0\<lparr>pending_db_version := 9\<rparr>)"
    using db_version_next_is_max [OF h1 h2 h3, of 9]
    by (simp add: ctx0_def CLOUDSYNC_VALUE_NOTSET_def)
  have b: "db_version_next host0 ctx0 CLOUDSYNC_VALUE_NOTSET = (1, ctx0\<lparr>pending_db_version := 1\<rparr>)"
    using db_version_next_is_max [OF h1 h2 h3, of CLOUDSYNC_VALUE_NOTSET]
    by (simp add: ctx0_def CLOUDSYNC_VALUE_NOTSET_def)
  from h1 h2 h3 a b show ?thesis by blast
qed

subsection \<open>The merge engine\<close>

text \<open>
  C5. For a table that is registered and not GOS, a change whose causal length \<open>cl\<close> is
  strictly smaller than the local causal length of its primary key is dropped:
  \<open>cloudsync_merge_insert\<close> returns \<open>SQLITE_OK\<close> and the whole state (user table, meta table,
  context) is the one it started from. The local causal length is the one
  \<open>merge_get_local_cl\<close> computes; a negative value is how that function reports that it could
  not compute one, and is an error before any comparison.
\<close>

theorem merge_insert_drops_stale:
  assumes "table_lookup (ctx s) (insert_tbl c) = Some table"
      and "algo table \<noteq> table_algo_crdt_gos"
      and "0 \<le> merge_get_local_cl s table (insert_pk c)"
      and "insert_cl c < merge_get_local_cl s table (insert_pk c)"
  shows "cloudsync_merge_insert h s c = (SQLITE_OK, s)"
  using assms by (simp add: cloudsync_merge_insert_def Let_def)

text \<open>
  The scenario of the claim: a delete with \<open>cl = 2\<close> for a key never seen leaves a tombstone;
  the insert with \<open>cl = 1\<close> that arrives afterwards is dropped, and the tombstone remains.
\<close>

theorem merge_insert_drops_stale_witness:
  "table_lookup (ctx tombstoned_state) (insert_tbl late_insert) = Some customers
   \<and> algo customers \<noteq> table_algo_crdt_gos
   \<and> 0 \<le> merge_get_local_cl tombstoned_state customers (insert_pk late_insert)
   \<and> insert_cl late_insert < merge_get_local_cl tombstoned_state customers (insert_pk late_insert)
   \<and> merge_get_local_cl state0 customers (insert_pk late_insert) = 0
   \<and> merge_get_local_cl tombstoned_state customers (insert_pk late_insert) = 2
   \<and> cloudsync_merge_insert host0 tombstoned_state late_insert = (SQLITE_OK, tombstoned_state)"
proof -
  have h1: "table_lookup (ctx tombstoned_state) (insert_tbl late_insert) = Some customers"
    by code_simp
  have h2: "algo customers \<noteq> table_algo_crdt_gos"
    by (simp add: customers_def)
  have l0: "merge_get_local_cl state0 customers (insert_pk late_insert) = 0"
    by code_simp
  have l2: "merge_get_local_cl tombstoned_state customers (insert_pk late_insert) = 2"
    by code_simp
  have h3: "0 \<le> merge_get_local_cl tombstoned_state customers (insert_pk late_insert)"
    by (simp add: l2)
  have h4: "insert_cl late_insert
              < merge_get_local_cl tombstoned_state customers (insert_pk late_insert)"
    using l2 by (simp add: late_insert_def)
  from merge_insert_drops_stale [OF h1 h2 h3 h4, of host0] h1 h2 h3 h4 l0 l2
  show ?thesis by blast
qed

text \<open>
  C6, as the code has it. For a table that is registered and not GOS, take a column write
  (its name is not the sentinel) whose causal length \<open>cl\<close> is odd and greater than the local
  causal length, and let the row exist locally (local causal length not 0) or \<open>cl > 1\<close>. Then
  \<open>cloudsync_merge_insert\<close> first runs \<open>merge_sentinel_only_insert\<close> with \<open>cl\<close>; when that
  fails the merge ends with its error, and otherwise the column write runs from the state the
  sentinel step has left. In that state the user table is the one that \<open>INSERT OR IGNORE\<close> of
  the key has left, which holds the key unless the host skipped the row, and the sentinel
  meta row has \<open>col_version = cl\<close>. When the column write succeeds too, the sentinel still has
  \<open>col_version = cl\<close> and the column's meta row carries the incoming \<open>col_version\<close>. (The host
  is taken to decode the key and to answer \<open>SQLITE_DONE\<close> to the write to the user table.)
\<close>

theorem merge_insert_resurrects_first:
  assumes "table_lookup (ctx s) (insert_tbl c) = Some table"
      and "algo table \<noteq> table_algo_crdt_gos"
      and "0 \<le> merge_get_local_cl s table (insert_pk c)"
      and "merge_get_local_cl s table (insert_pk c) < insert_cl c"
      and "c_rem (insert_cl c) 2 = 1"
      and "strcmp (insert_name c) CLOUDSYNC_TOMBSTONE_VALUE \<noteq> 0"
      and "merge_get_local_cl s table (insert_pk c) \<noteq> 0 \<or> 1 < insert_cl c"
      and "0 \<le> pk_decode_prikey h (insert_pk c)"
      and "real_write_rc h (name table) (insert_pk c) = SQLITE_DONE"
  shows "\<exists>rc1 s1.
           merge_sentinel_only_insert h s table (insert_pk c) (insert_cl c) (insert_db_version c)
             (insert_site_id c) (insert_seq c) = (rc1, s1)
         \<and> cloudsync_merge_insert h s c =
             (if rc1 \<noteq> SQLITE_OK then (rc1, s1)
              else merge_column_write h s1 table c True
                     (merge_get_local_cl s table (insert_pk c) \<noteq> 0))
         \<and> (rc1 = SQLITE_OK \<longrightarrow>
               real_of s1 table
                 = real_merge_sentinel_stmt (real_of s table) (column_default (db s) (name table))
                     (insert_pk c) (insert_ignored h (name table) (real_of s table) (insert_pk c))
             \<and> (\<not> insert_ignored h (name table) (real_of s table) (insert_pk c)
                  \<longrightarrow> real_of s1 table (insert_pk c) \<noteq> None)
             \<and> meta_col_version_stmt (meta_of s1 table) (insert_pk c) CLOUDSYNC_TOMBSTONE_VALUE
                 = Some (insert_cl c)
             \<and> (\<forall>s2. cloudsync_merge_insert h s c = (SQLITE_OK, s2) \<longrightarrow>
                    meta_col_version_stmt (meta_of s2 table) (insert_pk c) CLOUDSYNC_TOMBSTONE_VALUE
                      = Some (insert_cl c)
                  \<and> meta_col_version_stmt (meta_of s2 table) (insert_pk c) (insert_name c)
                      = Some (insert_col_version c)))"
proof -
  obtain rc1 s1 where m:
    "merge_sentinel_only_insert h s table (insert_pk c) (insert_cl c) (insert_db_version c)
       (insert_site_id c) (insert_seq c) = (rc1, s1)"
    by (cases "merge_sentinel_only_insert h s table (insert_pk c) (insert_cl c)
                 (insert_db_version c) (insert_site_id c) (insert_seq c)")
  have a: "cloudsync_merge_insert h s c =
             (if rc1 \<noteq> SQLITE_OK then (rc1, s1)
              else merge_column_write h s1 table c True
                     (merge_get_local_cl s table (insert_pk c) \<noteq> 0))"
    using assms(1-7) m by (auto simp: cloudsync_merge_insert_def Let_def)
  have b: "real_of s1 table
             = real_merge_sentinel_stmt (real_of s table) (column_default (db s) (name table))
                 (insert_pk c) (insert_ignored h (name table) (real_of s table) (insert_pk c))
           \<and> meta_col_version_stmt (meta_of s1 table) (insert_pk c) CLOUDSYNC_TOMBSTONE_VALUE
                 = Some (insert_cl c)" if ok: "rc1 = SQLITE_OK"
    using sentinel_only_insert_post[OF _ assms(8,9)] m ok by blast
  have b2: "real_of s1 table (insert_pk c) \<noteq> None"
    if ok: "rc1 = SQLITE_OK"
      and ni: "\<not> insert_ignored h (name table) (real_of s table) (insert_pk c)"
    using b[OF ok] ni by (simp add: real_merge_sentinel_stmt_def split: option.splits)
  have d: "meta_col_version_stmt (meta_of s2 table) (insert_pk c) CLOUDSYNC_TOMBSTONE_VALUE
                      = Some (insert_cl c)
                  \<and> meta_col_version_stmt (meta_of s2 table) (insert_pk c) (insert_name c)
                      = Some (insert_col_version c)"
    if ok: "rc1 = SQLITE_OK" and fin: "cloudsync_merge_insert h s c = (SQLITE_OK, s2)" for s2
  proof -
    from a ok fin have w: "merge_column_write h s1 table c True
                     (merge_get_local_cl s table (insert_pk c) \<noteq> 0) = (SQLITE_OK, s2)"
      by simp
    then have i: "merge_insert_col h s1 table (insert_pk c) (insert_name c) (insert_value c)
                    (insert_col_version c) (insert_db_version c) (insert_site_id c)
                    (insert_seq c) = (SQLITE_OK, s2)"
      by (auto simp: merge_column_write_def Let_def split: prod.splits if_splits)
    have ne: "CLOUDSYNC_TOMBSTONE_VALUE \<noteq> insert_name c"
      using assms(6) by auto
    have rw: "real_write_rc h (name table) (insert_pk c) \<noteq> SQLITE_OK"
      using assms(9) by (simp add: sqlite_codes)
    from merge_insert_col_post[OF i assms(8) rw] ne b[OF ok] show ?thesis
      by auto
  qed
  from m a b b2 d show ?thesis by blast
qed

text \<open>
  The scenario of the claim on the example host, which skips no row: the tombstoned key 1
  gets a column write with \<open>cl = 3\<close>; after the sentinel step the key is a row of the user
  table, and after the merge the sentinel is at 3 and the column at the incoming version.
\<close>

theorem merge_insert_resurrects_first_witness:
  "table_lookup (ctx tombstoned_state) (insert_tbl resurrecting_write) = Some customers
   \<and> algo customers \<noteq> table_algo_crdt_gos
   \<and> merge_get_local_cl tombstoned_state customers (insert_pk resurrecting_write) = 2
   \<and> insert_cl resurrecting_write = 3
   \<and> c_rem (insert_cl resurrecting_write) 2 = 1
   \<and> strcmp (insert_name resurrecting_write) CLOUDSYNC_TOMBSTONE_VALUE \<noteq> 0
   \<and> 0 \<le> pk_decode_prikey host0 (insert_pk resurrecting_write)
   \<and> real_write_rc host0 (name customers) (insert_pk resurrecting_write) = SQLITE_DONE
   \<and> \<not> insert_ignored host0 (name customers) (real_of tombstoned_state customers)
          (insert_pk resurrecting_write)
   \<and> fst (cloudsync_merge_insert host0 tombstoned_state resurrecting_write) = SQLITE_OK
   \<and> real_of (snd (merge_sentinel_only_insert host0 tombstoned_state customers
                     (insert_pk resurrecting_write) (insert_cl resurrecting_write)
                     (insert_db_version resurrecting_write) (insert_site_id resurrecting_write)
                     (insert_seq resurrecting_write))) customers (insert_pk resurrecting_write)
       \<noteq> None
   \<and> meta_col_version_stmt
        (meta_of (snd (cloudsync_merge_insert host0 tombstoned_state resurrecting_write)) customers)
        (insert_pk resurrecting_write) CLOUDSYNC_TOMBSTONE_VALUE = Some 3
   \<and> meta_col_version_stmt
        (meta_of (snd (cloudsync_merge_insert host0 tombstoned_state resurrecting_write)) customers)
        (insert_pk resurrecting_write) ''age'' = Some 1"
proof -
  have h1: "table_lookup (ctx tombstoned_state) (insert_tbl resurrecting_write) = Some customers"
    by code_simp
  have h2: "algo customers \<noteq> table_algo_crdt_gos"
    by (simp add: customers_def)
  have l2: "merge_get_local_cl tombstoned_state customers (insert_pk resurrecting_write) = 2"
    by code_simp
  have cl: "insert_cl resurrecting_write = 3"
    by (simp add: resurrecting_write_def)
  have nm: "insert_name resurrecting_write = ''age''"
    by (simp add: resurrecting_write_def insert_name_def)
  have cv: "insert_col_version resurrecting_write = 1"
    by (simp add: resurrecting_write_def)
  have h3: "0 \<le> merge_get_local_cl tombstoned_state customers (insert_pk resurrecting_write)"
    using l2 by simp
  have h4: "merge_get_local_cl tombstoned_state customers (insert_pk resurrecting_write)
              < insert_cl resurrecting_write"
    using l2 cl by simp
  have h5: "c_rem (insert_cl resurrecting_write) 2 = 1"
    by (simp add: cl c_rem_def)
  have h6: "strcmp (insert_name resurrecting_write) CLOUDSYNC_TOMBSTONE_VALUE \<noteq> 0"
    by (simp add: nm CLOUDSYNC_TOMBSTONE_VALUE_def)
  have h7: "merge_get_local_cl tombstoned_state customers (insert_pk resurrecting_write) \<noteq> 0
              \<or> 1 < insert_cl resurrecting_write"
    using cl by simp
  have h8: "0 \<le> pk_decode_prikey host0 (insert_pk resurrecting_write)"
    by (simp add: host0_def)
  have h9: "real_write_rc host0 (name customers) (insert_pk resurrecting_write) = SQLITE_DONE"
    by (simp add: host0_def)
  have ni: "\<not> insert_ignored host0 (name customers) (real_of tombstoned_state customers)
              (insert_pk resurrecting_write)"
    by (simp add: host0_def)
  have ok: "fst (cloudsync_merge_insert host0 tombstoned_state resurrecting_write) = SQLITE_OK"
    by code_simp
  obtain rc1 s1 where
    m: "merge_sentinel_only_insert host0 tombstoned_state customers (insert_pk resurrecting_write)
          (insert_cl resurrecting_write) (insert_db_version resurrecting_write)
          (insert_site_id resurrecting_write) (insert_seq resurrecting_write) = (rc1, s1)"
    and post: "rc1 = SQLITE_OK \<longrightarrow>
        (\<not> insert_ignored host0 (name customers) (real_of tombstoned_state customers)
             (insert_pk resurrecting_write)
           \<longrightarrow> real_of s1 customers (insert_pk resurrecting_write) \<noteq> None)
      \<and> (\<forall>s2. cloudsync_merge_insert host0 tombstoned_state resurrecting_write = (SQLITE_OK, s2) \<longrightarrow>
             meta_col_version_stmt (meta_of s2 customers) (insert_pk resurrecting_write)
               CLOUDSYNC_TOMBSTONE_VALUE = Some (insert_cl resurrecting_write)
           \<and> meta_col_version_stmt (meta_of s2 customers) (insert_pk resurrecting_write)
               (insert_name resurrecting_write) = Some (insert_col_version resurrecting_write))"
    using merge_insert_resurrects_first [OF h1 h2 h3 h4 h5 h6 h7 h8 h9] by blast
  have rc1: "rc1 = SQLITE_OK"
  proof -
    have "fst (merge_sentinel_only_insert host0 tombstoned_state customers
                 (insert_pk resurrecting_write) (insert_cl resurrecting_write)
                 (insert_db_version resurrecting_write) (insert_site_id resurrecting_write)
                 (insert_seq resurrecting_write)) = SQLITE_OK"
      by code_simp
    with m show ?thesis by simp
  qed
  have fin: "cloudsync_merge_insert host0 tombstoned_state resurrecting_write
               = (SQLITE_OK, snd (cloudsync_merge_insert host0 tombstoned_state resurrecting_write))"
    using ok by (simp add: prod_eq_iff)
  from post rc1 ni m have row:
    "real_of (snd (merge_sentinel_only_insert host0 tombstoned_state customers
                     (insert_pk resurrecting_write) (insert_cl resurrecting_write)
                     (insert_db_version resurrecting_write) (insert_site_id resurrecting_write)
                     (insert_seq resurrecting_write))) customers (insert_pk resurrecting_write)
       \<noteq> None"
    by simp
  from post rc1 fin have
    "meta_col_version_stmt
        (meta_of (snd (cloudsync_merge_insert host0 tombstoned_state resurrecting_write)) customers)
        (insert_pk resurrecting_write) CLOUDSYNC_TOMBSTONE_VALUE = Some 3
     \<and> meta_col_version_stmt
        (meta_of (snd (cloudsync_merge_insert host0 tombstoned_state resurrecting_write)) customers)
        (insert_pk resurrecting_write) ''age'' = Some 1"
    using cl nm cv by metis
  with h1 h2 l2 cl h5 h6 h8 h9 ni ok row show ?thesis by blast
qed

text \<open>
  The claim as stated fails: on a host that skips the row of defaults (\<open>INSERT OR IGNORE\<close>
  under a constraint that refuses it), the sentinel step of the same scenario succeeds and
  writes the sentinel at 3, and the key is not a row of the user table after it.
\<close>

theorem resurrect_step_skips_insert_counterexample:
  "table_lookup (ctx tombstoned_state) (insert_tbl resurrecting_write) = Some customers
   \<and> algo customers \<noteq> table_algo_crdt_gos
   \<and> merge_get_local_cl tombstoned_state customers (insert_pk resurrecting_write) = 2
   \<and> insert_cl resurrecting_write = 3
   \<and> insert_pk resurrecting_write = [1]
   \<and> real_write_rc host_check (name customers) [1] = SQLITE_DONE
   \<and> fst (merge_sentinel_only_insert host_check tombstoned_state customers [1] 3 9 [7] 1)
       = SQLITE_OK
   \<and> real_of (snd (merge_sentinel_only_insert host_check tombstoned_state customers [1] 3 9 [7] 1))
        customers [1] = None
   \<and> meta_col_version_stmt
        (meta_of (snd (merge_sentinel_only_insert host_check tombstoned_state customers [1] 3 9 [7] 1))
           customers) [1] CLOUDSYNC_TOMBSTONE_VALUE = Some 3
   \<and> fst (cloudsync_merge_insert host_check tombstoned_state resurrecting_write) = SQLITE_OK"
proof -
  have h1: "table_lookup (ctx tombstoned_state) (insert_tbl resurrecting_write) = Some customers"
    by code_simp
  have h2: "algo customers \<noteq> table_algo_crdt_gos"
    by (simp add: customers_def)
  have l2: "merge_get_local_cl tombstoned_state customers (insert_pk resurrecting_write) = 2"
    by code_simp
  have cl: "insert_cl resurrecting_write = 3"
    by (simp add: resurrecting_write_def)
  have pk: "insert_pk resurrecting_write = [1]"
    by (simp add: resurrecting_write_def)
  have d: "real_write_rc host_check (name customers) [1] = SQLITE_DONE"
    by (simp add: host_check_def host0_def)
  have a: "fst (merge_sentinel_only_insert host_check tombstoned_state customers [1] 3 9 [7] 1)
       = SQLITE_OK"
    by code_simp
  have b: "real_of (snd (merge_sentinel_only_insert host_check tombstoned_state customers [1] 3 9 [7] 1))
        customers [1] = None"
    by code_simp
  have e: "meta_col_version_stmt
        (meta_of (snd (merge_sentinel_only_insert host_check tombstoned_state customers [1] 3 9 [7] 1))
           customers) [1] CLOUDSYNC_TOMBSTONE_VALUE = Some 3"
    by code_simp
  have f: "fst (cloudsync_merge_insert host_check tombstoned_state resurrecting_write) = SQLITE_OK"
    by code_simp
  from h1 h2 l2 cl pk d a b e f show ?thesis by blast
qed

text \<open>
  C3, as the code has it. For a table registered with GOS, \<open>cloudsync_merge_insert\<close> hands
  every change to \<open>merge_insert_col\<close> and never looks at its causal length. A change whose
  column name is not a non-key column of the table, which is the case of every sentinel row
  and so of every tombstone the change view emits, results in \<open>SQLITE_MISUSE\<close> with the state
  unchanged. A change that names a non-key column gives the same result whatever its \<open>cl\<close>,
  even or odd, and when it succeeds the host's upsert of the column has run on the user
  table, with the value as the column stores it, and the column's meta row carries the
  incoming \<open>col_version\<close>.
\<close>

theorem gos_merge_by_column_only:
  assumes "table_lookup (ctx s) (insert_tbl c) = Some table"
      and "algo table = table_algo_crdt_gos"
  shows "(table_column_lookup table (insert_name c) = None
            \<longrightarrow> cloudsync_merge_insert h s c = (SQLITE_MISUSE, s))
       \<and> cloudsync_merge_insert h s (c\<lparr>insert_cl := k\<rparr>) = cloudsync_merge_insert h s c
       \<and> (\<forall>s'. 0 \<le> pk_decode_prikey h (insert_pk c)
              \<and> real_write_rc h (name table) (insert_pk c) \<noteq> SQLITE_OK
              \<and> cloudsync_merge_insert h s c = (SQLITE_OK, s')
            \<longrightarrow> (\<exists>cname. table_column_lookup table (insert_name c) = Some cname
                   \<and> real_of s' table
                       = col_merge_stmt (real_of s table) (column_default (db s) (name table))
                           (insert_pk c) cname
                           (column_affinity h (name table) cname (insert_value c))
                           (upsert_conflict h (name table) (real_of s table) (insert_pk c) cname
                              (insert_value c))
                   \<and> meta_col_version_stmt (meta_of s' table) (insert_pk c) (insert_name c)
                       = Some (insert_col_version c)))"
proof -
  have e: "cloudsync_merge_insert h s c =
           merge_insert_col h s table (insert_pk c) (insert_name c) (insert_value c)
             (insert_col_version c) (insert_db_version c) (insert_site_id c) (insert_seq c)"
    using assms by (simp add: cloudsync_merge_insert_def cloudsync_merge_insert_gos_def)
  have e2: "cloudsync_merge_insert h s (c\<lparr>insert_cl := k\<rparr>) =
           merge_insert_col h s table (insert_pk c) (insert_name c) (insert_value c)
             (insert_col_version c) (insert_db_version c) (insert_site_id c) (insert_seq c)"
    using assms
    by (simp add: cloudsync_merge_insert_def cloudsync_merge_insert_gos_def insert_name_def)
  have a: "table_column_lookup table (insert_name c) = None
            \<longrightarrow> cloudsync_merge_insert h s c = (SQLITE_MISUSE, s)"
    by (simp add: e merge_insert_col_def)
  have b: "\<forall>s'. 0 \<le> pk_decode_prikey h (insert_pk c)
              \<and> real_write_rc h (name table) (insert_pk c) \<noteq> SQLITE_OK
              \<and> cloudsync_merge_insert h s c = (SQLITE_OK, s')
            \<longrightarrow> (\<exists>cname. table_column_lookup table (insert_name c) = Some cname
                   \<and> real_of s' table
                       = col_merge_stmt (real_of s table) (column_default (db s) (name table))
                           (insert_pk c) cname
                           (column_affinity h (name table) cname (insert_value c))
                           (upsert_conflict h (name table) (real_of s table) (insert_pk c) cname
                              (insert_value c))
                   \<and> meta_col_version_stmt (meta_of s' table) (insert_pk c) (insert_name c)
                       = Some (insert_col_version c))"
    using merge_insert_col_post[of h s table "insert_pk c" "insert_name c" "insert_value c"
        "insert_col_version c" "insert_db_version c" "insert_site_id c" "insert_seq c"]
    unfolding e by blast
  from a b e e2 show ?thesis by simp
qed

theorem gos_merge_by_column_only_witness:
  "table_lookup (ctx state0) (insert_tbl gos_sentinel) = Some events
   \<and> algo events = table_algo_crdt_gos
   \<and> table_column_lookup events (insert_name gos_sentinel) = None
   \<and> cloudsync_merge_insert host0 state0 gos_sentinel = (SQLITE_MISUSE, state0)
   \<and> cloudsync_merge_insert host0 state0 (gos_sentinel\<lparr>insert_cl := 2\<rparr>) = (SQLITE_MISUSE, state0)"
proof -
  have h1: "table_lookup (ctx state0) (insert_tbl gos_sentinel) = Some events"
    by code_simp
  have h2: "algo events = table_algo_crdt_gos"
    by (simp add: events_def)
  have h3: "table_column_lookup events (insert_name gos_sentinel) = None"
    by code_simp
  from gos_merge_by_column_only [OF h1 h2, of host0 2] h1 h2 h3 show ?thesis
    by simp
qed

text \<open>
  The claim as stated fails: on the GOS table \<open>events\<close> a column write that carries the even
  causal length 2, which the CLS path would treat as a delete, is merged without an error.
\<close>

theorem gos_even_cl_merged_counterexample:
  "table_lookup (ctx state0) (insert_tbl gos_even_write) = Some events
   \<and> algo events = table_algo_crdt_gos
   \<and> c_rem (insert_cl gos_even_write) 2 = 0
   \<and> fst (cloudsync_merge_insert host0 state0 gos_even_write) = SQLITE_OK
   \<and> col_value_stmt (real_of (snd (cloudsync_merge_insert host0 state0 gos_even_write)) events)
        [1] ''msg'' = Some (VText ''hello'')"
proof -
  have h1: "table_lookup (ctx state0) (insert_tbl gos_even_write) = Some events"
    by code_simp
  have h2: "algo events = table_algo_crdt_gos"
    by (simp add: events_def)
  have h3: "c_rem (insert_cl gos_even_write) 2 = 0"
    by (simp add: gos_even_write_def c_rem_def)
  have h4: "fst (cloudsync_merge_insert host0 state0 gos_even_write) = SQLITE_OK"
    by code_simp
  have h5: "col_value_stmt (real_of (snd (cloudsync_merge_insert host0 state0 gos_even_write)) events)
        [1] ''msg'' = Some (VText ''hello'')"
    by code_simp
  from h1 h2 h3 h4 h5 show ?thesis by blast
qed

subsection \<open>Value comparison\<close>

text \<open>
  C2, as the code has it. Two values of different storage classes compare by
  \<open>r_type - l_type\<close> over SQLite's type codes, so NULL is less than every other class and,
  among the others, BLOB is less than TEXT, TEXT less than FLOAT, and FLOAT less than
  INTEGER. Within a class the natural order applies: integers and floats by value, texts by
  \<open>strcmp\<close>, blobs by \<open>memcmp\<close> of the common prefix and then by length. When an incoming
  column write ties with the local column row on \<open>col_version\<close> and site-id tie-breaking is
  off, the incoming change wins iff the comparison of (incoming value, local value) is
  greater than 0.
\<close>

theorem value_compare_decides_tie:
  "(sqlite3_value_type l \<noteq> sqlite3_value_type r
      \<longrightarrow> dbutils_value_compare (Some l) (Some r) = sqlite3_value_type r - sqlite3_value_type l)
   \<and> dbutils_value_compare (Some VNull) (Some (VBlob b)) < 0
   \<and> dbutils_value_compare (Some (VBlob b)) (Some (VText t)) < 0
   \<and> dbutils_value_compare (Some (VText t)) (Some (VFloat f)) < 0
   \<and> dbutils_value_compare (Some (VFloat f)) (Some (VInteger i)) < 0
   \<and> dbutils_value_compare (Some (VInteger i)) (Some (VInteger j))
       = (if i < j then -1 else if j < i then 1 else 0)
   \<and> dbutils_value_compare (Some (VFloat f)) (Some (VFloat g))
       = (if f < g then -1 else if g < f then 1 else 0)
   \<and> dbutils_value_compare (Some (VText t)) (Some (VText u)) = strcmp t u
   \<and> dbutils_value_compare (Some (VBlob b)) (Some (VBlob d))
       = (if memcmp b d (min (length b) (length d)) \<noteq> 0
          then memcmp b d (min (length b) (length d))
          else int (length b) - int (length d))
   \<and> (merge_get_col_version s table colname pk = Some colversion
        \<and> table_column_lookup table colname = Some cname
        \<and> 0 \<le> pk_decode_prikey h pk
        \<and> \<not> merge_equal_values (ctx s)
      \<longrightarrow> merge_did_cid_win h s table pk v site colname colversion
            = (SQLITE_OK,
               0 < dbutils_value_compare (Some v) (col_value_stmt (real_of s table) pk cname)))"
proof -
  have tie: "merge_did_cid_win h s table pk v site colname colversion
            = (SQLITE_OK,
               0 < dbutils_value_compare (Some v) (col_value_stmt (real_of s table) pk cname))"
    if "merge_get_col_version s table colname pk = Some colversion"
      and "table_column_lookup table colname = Some cname"
      and "0 \<le> pk_decode_prikey h pk"
      and "\<not> merge_equal_values (ctx s)"
    using that by (simp add: merge_did_cid_win_def Let_def)
  have ord: "(sqlite3_value_type l \<noteq> sqlite3_value_type r
      \<longrightarrow> dbutils_value_compare (Some l) (Some r) = sqlite3_value_type r - sqlite3_value_type l)
   \<and> dbutils_value_compare (Some VNull) (Some (VBlob b)) < 0
   \<and> dbutils_value_compare (Some (VBlob b)) (Some (VText t)) < 0
   \<and> dbutils_value_compare (Some (VText t)) (Some (VFloat f)) < 0
   \<and> dbutils_value_compare (Some (VFloat f)) (Some (VInteger i)) < 0
   \<and> dbutils_value_compare (Some (VInteger i)) (Some (VInteger j))
       = (if i < j then -1 else if j < i then 1 else 0)
   \<and> dbutils_value_compare (Some (VFloat f)) (Some (VFloat g))
       = (if f < g then -1 else if g < f then 1 else 0)
   \<and> dbutils_value_compare (Some (VText t)) (Some (VText u)) = strcmp t u
   \<and> dbutils_value_compare (Some (VBlob b)) (Some (VBlob d))
       = (if memcmp b d (min (length b) (length d)) \<noteq> 0
          then memcmp b d (min (length b) (length d))
          else int (length b) - int (length d))"
    by (auto simp: sqlite_types Let_def min_def)
  from ord tie show ?thesis by blast
qed

theorem value_compare_decides_tie_witness:
  "merge_get_col_version inserted_state customers ''age'' [2] = Some 1
   \<and> table_column_lookup customers ''age'' = Some ''age''
   \<and> 0 \<le> pk_decode_prikey host0 [2]
   \<and> \<not> merge_equal_values (ctx inserted_state)
   \<and> col_value_stmt (real_of inserted_state customers) [2] ''age'' = Some (VInteger 30)
   \<and> merge_did_cid_win host0 inserted_state customers [2] (VInteger 40) [8] ''age'' 1
       = (SQLITE_OK, True)
   \<and> merge_did_cid_win host0 inserted_state customers [2] (VText ''z'') [8] ''age'' 1
       = (SQLITE_OK, False)
   \<and> dbutils_value_compare (Some (VText ''z'')) (Some (VInteger 30)) = -2"
proof -
  have h1: "merge_get_col_version inserted_state customers ''age'' [2] = Some 1"
    by code_simp
  have h2: "table_column_lookup customers ''age'' = Some ''age''"
    by code_simp
  have h3: "0 \<le> pk_decode_prikey host0 [2]"
    by (simp add: host0_def)
  have h4: "\<not> merge_equal_values (ctx inserted_state)"
    by code_simp
  have v: "col_value_stmt (real_of inserted_state customers) [2] ''age'' = Some (VInteger 30)"
    by code_simp
  have t: "sqlite3_value_type (VText ''z'') \<noteq> sqlite3_value_type (VInteger 30)"
    by (simp add: sqlite_types)
  have c: "dbutils_value_compare (Some (VText ''z'')) (Some (VInteger 30)) = -2"
    using value_compare_decides_tie [of "VText ''z''" "VInteger 30"] t
    by (simp add: sqlite_types)
  have a: "merge_did_cid_win host0 inserted_state customers [2] (VInteger 40) [8] ''age'' 1
       = (SQLITE_OK, True)"
    using value_compare_decides_tie [of _ _ _ _ _ _ _ _ _ _ inserted_state customers "''age''"
        "[2]" 1 "''age''" host0 "VInteger 40" "[8]"] h1 h2 h3 h4 v
    by (simp add: sqlite_types)
  have b: "merge_did_cid_win host0 inserted_state customers [2] (VText ''z'') [8] ''age'' 1
       = (SQLITE_OK, False)"
    using value_compare_decides_tie [of _ _ _ _ _ _ _ _ _ _ inserted_state customers "''age''"
        "[2]" 1 "''age''" host0 "VText ''z''" "[8]"] h1 h2 h3 h4 v
    by (simp add: sqlite_types)
  from h1 h2 h3 h4 v a b c show ?thesis by blast
qed

text \<open>
  The claim as stated fails: an INTEGER compares greater than a FLOAT, and a TEXT greater
  than a BLOB.
\<close>

theorem value_compare_order_counterexample:
  "dbutils_value_compare (Some (VInteger 1)) (Some (VFloat 2)) = 1
   \<and> dbutils_value_compare (Some (VText ''a'')) (Some (VBlob [0])) = 1"
  by (simp add: sqlite_types)

subsection \<open>The payload codec\<close>

text \<open>
  C9. The \<open>cloudsync_payload_encode\<close> aggregate yields SQL NULL when its step function ran
  zero times, and only then; whenever at least one row was aggregated it yields a blob, which
  holds the 32 bytes of the header at least.
\<close>

theorem payload_encode_null_iff_no_rows:
  "cloudsync_payload_encode cd cdata [] = ResultNull
   \<and> (cloudsync_payload_encode cd cdata rows = ResultNull \<longleftrightarrow> rows = [])
   \<and> (rows \<noteq> [] \<longrightarrow>
        (\<exists>b. cloudsync_payload_encode cd cdata rows = ResultBlob b \<and> 32 \<le> length b))"
proof -
  have n: "payload_nrows (foldl (cloudsync_payload_encode_step cd) payload_zero rows) = length rows"
    by (simp add: foldl_step_nrows payload_zero_def)
  have a: "cloudsync_payload_encode cd cdata [] = ResultNull"
    by (simp add: cloudsync_payload_encode_def cloudsync_payload_encode_final_def payload_zero_def)
  have b: "rows \<noteq> [] \<Longrightarrow>
        (\<exists>b. cloudsync_payload_encode cd cdata rows = ResultBlob b \<and> 32 \<le> length b)"
    by (simp add: cloudsync_payload_encode_def cloudsync_payload_encode_final_def n Let_def
        length_header_encode)
  from a b show ?thesis by (cases "rows = []") auto
qed

theorem payload_encode_null_iff_no_rows_witness:
  "cloudsync_payload_encode codec0 ctx0 [] = ResultNull
   \<and> cloudsync_payload_encode codec0 ctx0 [[VInteger 1, VNull]] \<noteq> ResultNull
   \<and> (\<exists>b. cloudsync_payload_encode codec0 ctx0 [[VInteger 1, VNull]] = ResultBlob b
          \<and> 32 \<le> length b)"
  using payload_encode_null_iff_no_rows [of codec0 ctx0 "[[VInteger 1, VNull]]"]
  by simp

text \<open>
  C10. \<open>cloudsync_payload_decode\<close> checks its argument first: for a value that is not a BLOB,
  and for a BLOB shorter than the 32 bytes of the header, the result is the error
  \<open>SQLITE_MISUSE\<close> and the state is the one it started from. Only a BLOB of at least 32 bytes
  reaches \<open>cloudsync_payload_apply\<close>, whose result and state are then those of the call.
\<close>

theorem payload_decode_validates:
  "((\<forall>b. arg = VBlob b \<longrightarrow> length b < 32)
      \<longrightarrow> cloudsync_payload_decode h cd cb x s arg = (ResultError SQLITE_MISUSE, s))
   \<and> (\<forall>b. arg = VBlob b \<and> 32 \<le> length b
      \<longrightarrow> cloudsync_payload_decode h cd cb x s arg
            = snd (cloudsync_payload_apply h cd cb x s b))"
  by (cases arg)
     (auto simp: cloudsync_payload_decode_def header_size_def Let_def split: prod.splits)

theorem payload_decode_validates_witness:
  "cloudsync_payload_decode host0 codec0 None () state0 (VText ''CLSY'')
     = (ResultError SQLITE_MISUSE, state0)
   \<and> cloudsync_payload_decode host0 codec0 None () state0 (VBlob [0x43, 0x4C, 0x53, 0x59])
     = (ResultError SQLITE_MISUSE, state0)
   \<and> cloudsync_payload_decode host0 codec0 None () state0 VNull
     = (ResultError SQLITE_MISUSE, state0)"
  using payload_decode_validates [of "VText ''CLSY''" host0 codec0 None "()" state0]
        payload_decode_validates [of "VBlob [0x43, 0x4C, 0x53, 0x59]" host0 codec0 None "()" state0]
        payload_decode_validates [of VNull host0 codec0 None "()" state0]
  by simp

text \<open>
  C7. A payload whose header \<open>schema_hash\<close> differs from the local schema hash and is not in
  \<open>cloudsync_schema_versions\<close> is rejected as a whole: \<open>cloudsync_payload_apply\<close> returns \<open>-1\<close>
  with the error \<open>SQLITE_MISMATCH\<close> and the state is the one it started from, so none of its
  rows is applied. A payload whose hash is the local one or a registered one passes the
  gate: its result is never the mismatch error.
\<close>

theorem payload_apply_schema_hash_gate:
  "(header_schema_hash (header_decode payload) \<noteq> schema_hash (ctx s)
      \<and> header_schema_hash (header_decode payload) \<notin> set (cloudsync_schema_versions (db s))
    \<longrightarrow> cloudsync_payload_apply h cd cb x s payload = (-1, ResultError SQLITE_MISMATCH, s))
   \<and> (header_schema_hash (header_decode payload) = schema_hash (ctx s)
      \<or> header_schema_hash (header_decode payload) \<in> set (cloudsync_schema_versions (db s))
    \<longrightarrow> fst (snd (cloudsync_payload_apply h cd cb x s payload)) \<noteq> ResultError SQLITE_MISMATCH)"
  by (auto simp: cloudsync_payload_apply_def dbutils_check_schema_hash_def Let_def sqlite_codes
      split: prod.splits if_splits option.splits)

theorem payload_apply_schema_hash_gate_witness:
  "header_schema_hash (header_decode payload_unknown) \<noteq> schema_hash (ctx state0)
   \<and> header_schema_hash (header_decode payload_unknown) \<notin> set (cloudsync_schema_versions (db state0))
   \<and> cloudsync_payload_apply host0 codec0 None () state0 payload_unknown
       = (-1, ResultError SQLITE_MISMATCH, state0)
   \<and> header_schema_hash (header_decode payload_known) \<noteq> schema_hash (ctx state0)
   \<and> header_schema_hash (header_decode payload_known) \<in> set (cloudsync_schema_versions (db state0))
   \<and> fst (snd (cloudsync_payload_apply host0 codec0 None () state0 payload_known))
       \<noteq> ResultError SQLITE_MISMATCH
   \<and> fst (snd (cloudsync_payload_apply host0 codec0 None () state0 payload_known)) = ResultInt 1
   \<and> col_value_stmt
        (real_of (snd (snd (cloudsync_payload_apply host0 codec0 None () state0 payload_known)))
           customers) [2] ''age'' = Some (VInteger 30)"
proof -
  have u1: "header_schema_hash (header_decode payload_unknown) \<noteq> schema_hash (ctx state0)"
    by code_simp
  have u2: "header_schema_hash (header_decode payload_unknown)
              \<notin> set (cloudsync_schema_versions (db state0))"
    by code_simp
  have k1: "header_schema_hash (header_decode payload_known) \<noteq> schema_hash (ctx state0)"
    by code_simp
  have k2: "header_schema_hash (header_decode payload_known)
              \<in> set (cloudsync_schema_versions (db state0))"
    by code_simp
  have a: "cloudsync_payload_apply host0 codec0 None () state0 payload_unknown
       = (-1, ResultError SQLITE_MISMATCH, state0)"
    using payload_apply_schema_hash_gate [of payload_unknown state0 host0 codec0 None "()"] u1 u2
    by blast
  have b: "fst (snd (cloudsync_payload_apply host0 codec0 None () state0 payload_known))
       \<noteq> ResultError SQLITE_MISMATCH"
    using payload_apply_schema_hash_gate [of payload_known state0 host0 codec0 None "()"] k2
    by blast
  have c: "fst (snd (cloudsync_payload_apply host0 codec0 None () state0 payload_known)) = ResultInt 1"
    by code_simp
  have d: "col_value_stmt
        (real_of (snd (snd (cloudsync_payload_apply host0 codec0 None () state0 payload_known)))
           customers) [2] ''age'' = Some (VInteger 30)"
    by code_simp
  from u1 u2 a k1 k2 b c d show ?thesis by blast
qed







section \<open>The meta-table invariant\<close>

lemma next_live_version_odd [simp]: "odd (next_live_version v)"
  by (auto simp: next_live_version_def c_rem_def sgn_if abs_if split: if_splits)




subsection \<open>The sentinel version and the column rows after each statement\<close>

































subsection \<open>The primary key of the meta table stays unique\<close>











subsection \<open>The invariant of one key\<close>











subsection \<open>What an operation leaves alone\<close>





























subsection \<open>The invariant across the statements of one operation\<close>













subsection \<open>The invariant across the capture of a local change\<close>








lemma ctx_set_meta [simp]: "ctx (set_meta s table m) = ctx s"
  by (simp add: set_meta_def)









subsection \<open>The invariant across a merge\<close>














subsection \<open>The invariant in every reachable state\<close>






lemma reachable_commit_hook:
  "reachable s \<Longrightarrow> reachable (s\<lparr>ctx := cloudsync_commit_hook (ctx s)\<rparr>)"
  by (rule reach_context) (simp_all add: registry_def cloudsync_commit_hook_def)

lemma reachable_rollback_hook:
  "reachable s \<Longrightarrow> reachable (s\<lparr>ctx := cloudsync_rollback_hook (ctx s)\<rparr>)"
  by (rule reach_context) (simp_all add: registry_def cloudsync_rollback_hook_def)

text \<open>
  One row of a payload, applied in autocommit mode, leads from a reachable state to a
  reachable state, whether the row's statement succeeds or fails.
\<close>

lemma reachable_changes_insert_step:
  assumes r: "reachable s"
      and host: "\<forall>n pk. real_write_rc h n pk \<noteq> SQLITE_OK"
      and wfc: "sentinel_version_is_cl c"
      and auto: "autocommit s"
  shows "reachable (snd (changes_insert_step h s c))"
proof -
  obtain rc s' where m: "cloudsync_merge_insert h s c = (rc, s')"
    by (cases "cloudsync_merge_insert h s c")
  show ?thesis
  proof (cases "rc = SQLITE_OK")
    case True
    with m have "reachable s'" using reach_merge[OF r host wfc] by simp
    from reachable_commit_hook[OF this] m True auto show ?thesis
      by (simp add: changes_insert_step_def statement_commit_def)
  next
    case False
    from reach_merge_failed[OF r m False] have "reachable (s'\<lparr>db := db s\<rparr>)" .
    from reachable_rollback_hook[OF this] m False auto show ?thesis
      by (simp add: changes_insert_step_def statement_rollback_def)
  qed
qed






subsection \<open>What the two conditions leave out\<close>

text \<open>
  A key change that \<open>cloudsync_update\<close> does not see. The two TEXT keys differ behind a NUL
  byte, so \<open>dbutils_value_compare\<close> answers 0 for them and the update is captured as a change
  of columns only: the column row is written under the new key, whose sentinel still says
  that the row is deleted.
\<close>

lemma missed_key_change_example:
  "\<not> key_change_seen host_text [key_a_nul_c] [key_a_nul_b]
   \<and> has_column_row (meta_of missed_key_change_state customers)
        (pk_encode_prikey host_text [key_a_nul_c])
   \<and> sentinel_version (meta_of missed_key_change_state customers)
        (pk_encode_prikey host_text [key_a_nul_c]) = Some 2"
  by code_simp

text \<open>
  A sentinel change whose \<open>col_version\<close> is not its \<open>cl\<close>. The sentinel-only branch writes the
  sentinel at the change's \<open>col_version\<close>, here 2, over a key that has a column row.
\<close>

lemma malformed_sentinel_example:
  "\<not> sentinel_version_is_cl malformed_sentinel
   \<and> fst (cloudsync_merge_insert host0 inserted_state malformed_sentinel) = SQLITE_OK
   \<and> has_column_row
        (meta_of (snd (cloudsync_merge_insert host0 inserted_state malformed_sentinel)) customers) [2]
   \<and> sentinel_version
        (meta_of (snd (cloudsync_merge_insert host0 inserted_state malformed_sentinel)) customers) [2]
      = Some 2"
  by code_simp

subsection \<open>The sentinel of a live key\<close>




end
